theory Spec2Isabelle
  imports Main "HOL-Library.Sublist"
begin

section \<open>Values thrown and returned as errors\<close>

text \<open>
  A JavaScript \<open>catch\<close> receives any value. The code only ever asks two things of it:
  whether it is an \<open>Error\<close> instance, and what its \<open>message\<close> is. \<open>Error m\<close> is an
  \<open>Error\<close> instance with message \<open>m\<close> (a \<open>TypeError\<close> included); \<open>Other d\<close> is any
  other thrown value, described by \<open>d\<close>.
\<close>

datatype jserror = Error string | Other string

section \<open>The remote store\<close>

text \<open>
  The four tables of the backend, each a list of rows in storage order. The column names
  are the ones the code writes and reads.
\<close>

record resumes_row =
  row_id :: string
  row_name :: string
  row_email :: string
  row_phone :: string
  row_location :: string
  row_linkedin :: string
  row_website :: string
  row_summary :: string
  row_skills :: "string list"
  row_created_at :: nat

record experiences_row =
  exprow_id :: string
  exprow_resume_id :: string
  exprow_company :: string
  exprow_position :: string
  exprow_start_date :: string
  exprow_end_date :: string
  exprow_description :: string
  exprow_order_index :: nat

record education_row =
  edurow_id :: string
  edurow_resume_id :: string
  edurow_institution :: string
  edurow_degree :: string
  edurow_field_of_study :: string
  edurow_start_date :: string
  edurow_end_date :: string
  edurow_description :: string
  edurow_order_index :: nat

record certifications_row =
  certrow_id :: string
  certrow_resume_id :: string
  certrow_name :: string
  certrow_issuer :: string
  certrow_date :: string
  certrow_description :: string
  certrow_order_index :: nat

record database =
  resumes :: "resumes_row list"
  resume_experiences :: "experiences_row list"
  resume_education :: "education_row list"
  resume_certifications :: "certifications_row list"

text \<open>
  What one request to the store does besides its query: it answers, it answers with an
  error object and changes nothing, or the transport throws. The schedule of these is part
  of the world, one entry per request; when the schedule is used up every request answers.
\<close>

datatype fault = NoFault | ReturnsError jserror | Throws jserror

datatype console_line =
    Attempt string nat jserror
  | AttemptFailed string nat jserror
  | Retrying string nat
  | HealthCheckLine jserror
  | ErrorLine string jserror

section \<open>The pool and the world it lives in\<close>

record SupabaseConnectionPool =
  clients :: "nat list"
  currentIndex :: nat
  healthCheckInterval :: "nat option"

record world =
  connectionPool :: SupabaseConnectionPool
  backend :: database
  faults :: "fault list"
  uuid_source :: "nat \<Rightarrow> string"
  uuid_count :: nat
  client_count :: nat
  intervals :: "nat list"
  interval_count :: nat
  clock :: nat
  sleeps :: "nat list"
  console :: "console_line list"

definition poolSize :: nat where
  "poolSize = 5"

text \<open>\<open>createSupabaseClient\<close>: every call makes a new handle; handles are numbered.\<close>

definition createSupabaseClient :: "world \<Rightarrow> nat \<times> world" where
  "createSupabaseClient w = (client_count w, w\<lparr>client_count := Suc (client_count w)\<rparr>)"

text \<open>The loop of \<open>initializePool\<close>, from \<open>i\<close> up to \<open>poolSize\<close>.\<close>

function initializePool_from :: "nat \<Rightarrow> world \<Rightarrow> world" where
  "initializePool_from i w =
     (if i < poolSize then
        (case createSupabaseClient w of (client, w1) \<Rightarrow>
           initializePool_from (Suc i)
             (w1\<lparr>connectionPool :=
                 (connectionPool w1)\<lparr>clients := clients (connectionPool w1) @ [client]\<rparr>\<rparr>))
      else w)"
  by pat_completeness auto
termination
  by (relation "measure (\<lambda>(i, w). poolSize - i)") auto

declare initializePool_from.simps [simp del]

definition initializePool :: "world \<Rightarrow> world" where
  "initializePool w = initializePool_from 0 w"

text \<open>
  \<open>setInterval\<close> registers a recurring timer and returns its identifier, a positive
  number never handed out before; \<open>clearInterval\<close> removes an identifier from the active
  timers and does nothing for an identifier that is not active.
\<close>

definition setInterval :: "world \<Rightarrow> nat \<times> world" where
  "setInterval w =
     (Suc (interval_count w),
      w\<lparr>intervals := intervals w @ [Suc (interval_count w)],
        interval_count := Suc (interval_count w)\<rparr>)"

definition clearInterval :: "nat \<Rightarrow> world \<Rightarrow> world" where
  "clearInterval t w = w\<lparr>intervals := removeAll t (intervals w)\<rparr>"

definition startHealthCheck :: "world \<Rightarrow> world" where
  "startHealthCheck w =
     (case setInterval w of (t, w1) \<Rightarrow>
        w1\<lparr>connectionPool := (connectionPool w1)\<lparr>healthCheckInterval := Some t\<rparr>\<rparr>)"

text \<open>The field initialisers of the class, then the constructor body.\<close>

definition new_SupabaseConnectionPool :: "world \<Rightarrow> world" where
  "new_SupabaseConnectionPool w =
     startHealthCheck (initializePool
       (w\<lparr>connectionPool := \<lparr>clients = [], currentIndex = 0, healthCheckInterval = None\<rparr>\<rparr>))"

definition refreshPool :: "world \<Rightarrow> world" where
  "refreshPool w =
     initializePool (w\<lparr>connectionPool := (connectionPool w)\<lparr>clients := []\<rparr>\<rparr>)"

text \<open>
  \<open>getClient\<close>: an index past the end of a JavaScript array reads \<open>undefined\<close>, here
  \<open>None\<close>.
\<close>

definition getClient :: "world \<Rightarrow> nat option \<times> world" where
  "getClient w =
     (let p = connectionPool w;
          client = (if currentIndex p < length (clients p)
                    then Some (clients p ! currentIndex p) else None)
      in (client,
          w\<lparr>connectionPool := p\<lparr>currentIndex := (currentIndex p + 1) mod poolSize\<rparr>\<rparr>))"

text \<open>
  \<open>destroy\<close>: the test \<open>if (this.healthCheckInterval)\<close> is a truthiness test, false for
  \<open>null\<close> and for the number 0. The field itself is left as it is.
\<close>

definition destroy :: "world \<Rightarrow> world" where
  "destroy w =
     (case healthCheckInterval (connectionPool w) of
        None \<Rightarrow> w
      | Some t \<Rightarrow> if t \<noteq> 0 then clearInterval t w else w)"

definition cleanup :: "world \<Rightarrow> world" where
  "cleanup w = destroy w"

definition getSupabaseClient :: "world \<Rightarrow> nat option \<times> world" where
  "getSupabaseClient w = getClient w"

section \<open>Requests\<close>

text \<open>
  The answer of a request is the pair \<open>{ data, error }\<close>. A request through a handle
  that is \<open>undefined\<close> throws a \<open>TypeError\<close> before anything is sent. Otherwise the next
  entry of the fault schedule decides whether the query runs on the store.
\<close>

datatype 'a response = Response (resp_data: "'a option") (resp_error: "jserror option")

definition undefined_client :: jserror where
  "undefined_client = Error ''Cannot read properties of undefined (reading 'from')''"

definition perform :: "(database \<Rightarrow> 'a response \<times> database) \<Rightarrow> fault list \<Rightarrow> world
    \<Rightarrow> (jserror + 'a response) \<times> world" where
  "perform query fs w =
     (case query (backend w) of (r, db) \<Rightarrow> (Inr r, w\<lparr>backend := db, faults := fs\<rparr>))"

definition request :: "nat option \<Rightarrow> (database \<Rightarrow> 'a response \<times> database) \<Rightarrow> world
    \<Rightarrow> (jserror + 'a response) \<times> world" where
  "request client query w =
     (case client of
        None \<Rightarrow> (Inl undefined_client, w)
      | Some c \<Rightarrow>
          (case faults w of
             [] \<Rightarrow> perform query [] w
           | NoFault # fs \<Rightarrow> perform query fs w
           | ReturnsError e # fs \<Rightarrow> (Inr (Response None (Some e)), w\<lparr>faults := fs\<rparr>)
           | Throws e # fs \<Rightarrow> (Inl e, w\<lparr>faults := fs\<rparr>)))"

text \<open>\<open>from('resumes').select('count').limit(1)\<close>: a read; its data is never used.\<close>

definition select_count :: "database \<Rightarrow> nat response \<times> database" where
  "select_count db = (Response (Some (length (resumes db))) None, db)"

definition console_log :: "console_line \<Rightarrow> world \<Rightarrow> world" where
  "console_log l w = w\<lparr>console := console w @ [l]\<rparr>"

text \<open>\<open>await new Promise(resolve => setTimeout(resolve, ms))\<close>.\<close>

definition sleep :: "nat \<Rightarrow> world \<Rightarrow> world" where
  "sleep ms w = w\<lparr>clock := clock w + ms, sleeps := sleeps w @ [ms]\<rparr>"

definition performHealthCheck :: "world \<Rightarrow> world" where
  "performHealthCheck w =
     (case getClient w of (client, w1) \<Rightarrow>
        (case request client select_count w1 of
           (Inr r, w2) \<Rightarrow> w2
         | (Inl e, w2) \<Rightarrow> refreshPool (console_log (HealthCheckLine e) w2)))"

text \<open>
  The runtime fires the callback registered by \<open>startHealthCheck\<close> every 30 seconds for
  as long as the timer is active.
\<close>

definition interval_fires :: "world \<Rightarrow> world" where
  "interval_fires w =
     (case healthCheckInterval (connectionPool w) of
        None \<Rightarrow> w
      | Some t \<Rightarrow> if t \<in> set (intervals w) then performHealthCheck w else w)"

section \<open>The executor of the pooled variant\<close>

definition unknown_error :: jserror where
  "unknown_error = Error ''Unknown error occurred''"

text \<open>
  The \<open>for\<close> loop of \<open>executeWithPermanentConnection\<close>, entered at \<open>attempt\<close> with the
  current \<open>lastError\<close>. A failed attempt that is not the last one waits
  \<open>100 * (attempt + 1)\<close> milliseconds; the last one falls through to the loop's increment
  and the loop ends.
\<close>

function executeWithPermanentConnection_loop ::
  "(nat option \<Rightarrow> world \<Rightarrow> (jserror + 'a) \<times> world) \<Rightarrow> string \<Rightarrow> nat \<Rightarrow> nat \<Rightarrow> jserror
     \<Rightarrow> world \<Rightarrow> (jserror + 'a) \<times> world" where
  "executeWithPermanentConnection_loop operation operationName maxRetries attempt lastError w =
     (if attempt < maxRetries then
        (case getSupabaseClient w of (client, w1) \<Rightarrow>
           (case operation client w1 of
              (Inr result, w2) \<Rightarrow> (Inr result, w2)
            | (Inl error, w2) \<Rightarrow>
                (let w3 = console_log (Attempt operationName (attempt + 1) error) w2 in
                 if attempt < maxRetries - 1
                 then executeWithPermanentConnection_loop operation operationName maxRetries
                        (attempt + 1) error (sleep (100 * (attempt + 1)) w3)
                 else executeWithPermanentConnection_loop operation operationName maxRetries
                        (attempt + 1) error w3)))
      else (Inl lastError, w))"
  by pat_completeness auto
termination
  by (relation "measure (\<lambda>(operation, operationName, maxRetries, attempt, lastError, w).
        maxRetries - attempt)") auto

declare executeWithPermanentConnection_loop.simps [simp del]

definition executeWithPermanentConnection ::
  "(nat option \<Rightarrow> world \<Rightarrow> (jserror + 'a) \<times> world) \<Rightarrow> string \<Rightarrow> nat
     \<Rightarrow> world \<Rightarrow> (jserror + 'a) \<times> world" where
  "executeWithPermanentConnection operation operationName maxRetries w =
     executeWithPermanentConnection_loop operation operationName maxRetries 0 unknown_error w"

text \<open>The default of the parameter \<open>maxRetries\<close>, which every caller in the file uses.\<close>

definition default_maxRetries :: nat where
  "default_maxRetries = 5"

section \<open>Connection test\<close>

definition testConnection :: "world \<Rightarrow> bool \<times> world" where
  "testConnection w =
     (case getSupabaseClient w of (client, w1) \<Rightarrow>
        (case request client select_count w1 of
           (Inr r, w2) \<Rightarrow> (resp_error r = None, w2)
         | (Inl e, w2) \<Rightarrow> (False, w2)))"

section \<open>The retry wrapper of the single-client variant\<close>

definition RETRY_CONFIG_maxRetries :: nat where
  "RETRY_CONFIG_maxRetries = 3"

definition RETRY_CONFIG_baseDelay :: nat where
  "RETRY_CONFIG_baseDelay = 1000"

definition RETRY_CONFIG_maxDelay :: nat where
  "RETRY_CONFIG_maxDelay = 5000"

definition calculateDelay :: "nat \<Rightarrow> nat" where
  "calculateDelay attempt =
     (let delay = RETRY_CONFIG_baseDelay * 2 ^ attempt in min delay RETRY_CONFIG_maxDelay)"

text \<open>
  Strings are sequences of bytes, in UTF-8. \<open>includes\<close> (here \<open>includes_str\<close>) is the
  test for a contiguous substring; for a substring of ASCII characters, as all the ones
  tested here are, it holds of the bytes exactly when it holds of the characters.

  \<open>toLowerCase\<close> is the string method of the JavaScript runtime. It follows the Unicode
  case mapping (the Kelvin sign becomes the letter k), which is not part of the program:
  it is a parameter of \<open>isRetryable\<close> and of \<open>withRetry\<close>, and every statement about
  them holds whatever function it is.
\<close>

definition includes_str :: "string \<Rightarrow> string \<Rightarrow> bool" where
  "includes_str s part = sublist part s"

definition isRetryable :: "(string \<Rightarrow> string) \<Rightarrow> jserror \<Rightarrow> bool" where
  "isRetryable toLowerCase error =
     (let errorMessage = (case error of Error m \<Rightarrow> toLowerCase m | Other d \<Rightarrow> [])
      in includes_str errorMessage ''connection'' \<or>
         includes_str errorMessage ''timeout'' \<or>
         includes_str errorMessage ''network'' \<or>
         includes_str errorMessage ''fetch'' \<or>
         includes_str errorMessage ''refused'' \<or>
         includes_str errorMessage ''502'' \<or>
         includes_str errorMessage ''503'' \<or>
         includes_str errorMessage ''504'')"

text \<open>\<open>throw lastError\<close>, where \<open>lastError\<close> is declared without a value.\<close>

definition throw_lastError :: "jserror option \<Rightarrow> world \<Rightarrow> (jserror + 'a) \<times> world" where
  "throw_lastError lastError w =
     (Inl (case lastError of None \<Rightarrow> Other ''undefined'' | Some e \<Rightarrow> e), w)"

text \<open>
  The \<open>for\<close> loop of \<open>withRetry\<close>, entered at \<open>attempt\<close>. The \<open>break\<close> on the last
  attempt leaves the loop for the \<open>throw lastError\<close> after it.
\<close>

function withRetry_loop ::
  "(string \<Rightarrow> string) \<Rightarrow> (world \<Rightarrow> (jserror + 'a) \<times> world) \<Rightarrow> string \<Rightarrow> nat
     \<Rightarrow> jserror option \<Rightarrow> world \<Rightarrow> (jserror + 'a) \<times> world" where
  "withRetry_loop toLowerCase operation operationName attempt lastError w =
     (if attempt \<le> RETRY_CONFIG_maxRetries then
        (case operation w of
           (Inr result, w1) \<Rightarrow> (Inr result, w1)
         | (Inl error, w1) \<Rightarrow>
             (let w2 = console_log (AttemptFailed operationName (attempt + 1) error) w1 in
              if attempt = RETRY_CONFIG_maxRetries then throw_lastError (Some error) w2
              else if \<not> isRetryable toLowerCase error then (Inl error, w2)
              else (let delay = calculateDelay attempt in
                    withRetry_loop toLowerCase operation operationName (attempt + 1) (Some error)
                      (sleep delay (console_log (Retrying operationName delay) w2)))))
      else throw_lastError lastError w)"
  by pat_completeness auto
termination
  by (relation "measure (\<lambda>(toLowerCase, operation, operationName, attempt, lastError, w).
        Suc RETRY_CONFIG_maxRetries - attempt)") auto

declare withRetry_loop.simps [simp del]

definition withRetry ::
  "(string \<Rightarrow> string) \<Rightarrow> (world \<Rightarrow> (jserror + 'a) \<times> world) \<Rightarrow> string \<Rightarrow> world
     \<Rightarrow> (jserror + 'a) \<times> world" where
  "withRetry toLowerCase operation operationName w =
     withRetry_loop toLowerCase operation operationName 0 None w"

section \<open>The resume and its entries\<close>

text \<open>
  Modelled from the spec: the declarations of \<open>Resume\<close> and of its entry types are in
  \<open>../types\<close>, which is not among the sources. The spec describes a resume as an
  identifier, scalar profile fields, skill tags and three ordered child collections whose
  entries hold dates as strings and free text; the fields below are the ones the
  data-access layer reads and writes. An identifier that is absent and the empty string
  are both falsy in \<open>resume.id || uuidv4()\<close>; the model has the empty string for both.
\<close>

record Experience =
  exp_company :: string
  exp_position :: string
  exp_startDate :: string
  exp_endDate :: string
  exp_description :: string

record Education =
  edu_institution :: string
  edu_degree :: string
  edu_fieldOfStudy :: string
  edu_startDate :: string
  edu_endDate :: string
  edu_description :: string

record Certification =
  cert_name :: string
  cert_issuer :: string
  cert_date :: string
  cert_description :: string

record Resume =
  r_id :: string
  r_name :: string
  r_email :: string
  r_phone :: string
  r_location :: string
  r_linkedin :: string
  r_website :: string
  r_summary :: string
  r_skills :: "string list"
  r_experience :: "Experience list"
  r_education :: "Education list"
  r_certifications :: "Certification list"

section \<open>Queries on the store\<close>

text \<open>
  \<open>upsert(row, { onConflict: 'id' })\<close>: a row with that identifier is replaced in place,
  otherwise the row is added.
\<close>

definition upsert_resume :: "resumes_row \<Rightarrow> database \<Rightarrow> unit response \<times> database" where
  "upsert_resume row db =
     (Response None None,
      db\<lparr>resumes :=
          (if row_id row \<in> set (map row_id (resumes db))
           then map (\<lambda>r. if row_id r = row_id row then row else r) (resumes db)
           else resumes db @ [row])\<rparr>)"

definition delete_experiences :: "string \<Rightarrow> database \<Rightarrow> unit response \<times> database" where
  "delete_experiences resumeId db =
     (Response None None,
      db\<lparr>resume_experiences :=
          filter (\<lambda>r. exprow_resume_id r \<noteq> resumeId) (resume_experiences db)\<rparr>)"

definition insert_experiences :: "experiences_row list \<Rightarrow> database \<Rightarrow> unit response \<times> database" where
  "insert_experiences rows db =
     (Response None None, db\<lparr>resume_experiences := resume_experiences db @ rows\<rparr>)"

definition delete_education :: "string \<Rightarrow> database \<Rightarrow> unit response \<times> database" where
  "delete_education resumeId db =
     (Response None None,
      db\<lparr>resume_education :=
          filter (\<lambda>r. edurow_resume_id r \<noteq> resumeId) (resume_education db)\<rparr>)"

definition insert_education :: "education_row list \<Rightarrow> database \<Rightarrow> unit response \<times> database" where
  "insert_education rows db =
     (Response None None, db\<lparr>resume_education := resume_education db @ rows\<rparr>)"

definition delete_certifications :: "string \<Rightarrow> database \<Rightarrow> unit response \<times> database" where
  "delete_certifications resumeId db =
     (Response None None,
      db\<lparr>resume_certifications :=
          filter (\<lambda>r. certrow_resume_id r \<noteq> resumeId) (resume_certifications db)\<rparr>)"

definition insert_certifications ::
  "certifications_row list \<Rightarrow> database \<Rightarrow> unit response \<times> database" where
  "insert_certifications rows db =
     (Response None None, db\<lparr>resume_certifications := resume_certifications db @ rows\<rparr>)"

text \<open>
  \<open>select('*').eq('id', id).single()\<close> answers with an error unless exactly one row
  matches.
\<close>

definition not_single :: jserror where
  "not_single = Error ''JSON object requested, multiple (or no) rows returned''"

definition select_resume_single :: "string \<Rightarrow> database \<Rightarrow> resumes_row response \<times> database" where
  "select_resume_single ident db =
     (case filter (\<lambda>r. row_id r = ident) (resumes db) of
        [r] \<Rightarrow> (Response (Some r) None, db)
      | _ \<Rightarrow> (Response None (Some not_single), db))"

text \<open>
  \<open>select('*').eq('resume_id', id).order('order_index', { ascending: true })\<close>: the
  matching rows, sorted by the order key; rows with equal keys keep their storage order.
\<close>

definition select_experiences :: "string \<Rightarrow> database \<Rightarrow> experiences_row list response \<times> database" where
  "select_experiences ident db =
     (Response (Some (sort_key exprow_order_index
         (filter (\<lambda>r. exprow_resume_id r = ident) (resume_experiences db)))) None, db)"

definition select_education :: "string \<Rightarrow> database \<Rightarrow> education_row list response \<times> database" where
  "select_education ident db =
     (Response (Some (sort_key edurow_order_index
         (filter (\<lambda>r. edurow_resume_id r = ident) (resume_education db)))) None, db)"

definition select_certifications ::
  "string \<Rightarrow> database \<Rightarrow> certifications_row list response \<times> database" where
  "select_certifications ident db =
     (Response (Some (sort_key certrow_order_index
         (filter (\<lambda>r. certrow_resume_id r = ident) (resume_certifications db)))) None, db)"

text \<open>\<open>select('*').order('created_at', { ascending: false })\<close>.\<close>

definition select_all_resumes :: "database \<Rightarrow> resumes_row list response \<times> database" where
  "select_all_resumes db = (Response (Some (rev (sort_key row_created_at (resumes db)))) None, db)"

text \<open>
  \<open>delete().eq('id', id)\<close> on the parent table; the store removes the child rows of a
  deleted parent (cascade).
\<close>

definition delete_resume :: "string \<Rightarrow> database \<Rightarrow> unit response \<times> database" where
  "delete_resume ident db =
     (Response None None,
      db\<lparr>resumes := filter (\<lambda>r. row_id r \<noteq> ident) (resumes db),
         resume_experiences := filter (\<lambda>r. exprow_resume_id r \<noteq> ident) (resume_experiences db),
         resume_education := filter (\<lambda>r. edurow_resume_id r \<noteq> ident) (resume_education db),
         resume_certifications :=
           filter (\<lambda>r. certrow_resume_id r \<noteq> ident) (resume_certifications db)\<rparr>)"

section \<open>The repository operations of the pooled variant\<close>

definition uuidv4 :: "world \<Rightarrow> string \<times> world" where
  "uuidv4 w = (uuid_source w (uuid_count w), w\<lparr>uuid_count := Suc (uuid_count w)\<rparr>)"

text \<open>Sequencing: a step that threw ends the operation with that error.\<close>

definition and_then ::
  "(world \<Rightarrow> (jserror + 'a) \<times> world) \<Rightarrow> ('a \<Rightarrow> world \<Rightarrow> (jserror + 'b) \<times> world)
     \<Rightarrow> world \<Rightarrow> (jserror + 'b) \<times> world" where
  "and_then m f w = (case m w of (Inl e, w1) \<Rightarrow> (Inl e, w1) | (Inr a, w1) \<Rightarrow> f a w1)"

text \<open>
  \<open>const { data, error } = await ...; if (error) throw error;\<close> is \<open>throw_if_error\<close>;
  \<open>const { data } = await ...\<close>, which ignores the error field, is \<open>data_only\<close>.
\<close>

definition throw_if_error :: "(jserror + 'a response) \<times> world \<Rightarrow> (jserror + 'a option) \<times> world" where
  "throw_if_error rw =
     (case rw of
        (Inl e, w) \<Rightarrow> (Inl e, w)
      | (Inr r, w) \<Rightarrow>
          (case resp_error r of Some e \<Rightarrow> (Inl e, w) | None \<Rightarrow> (Inr (resp_data r), w)))"

definition data_only :: "(jserror + 'a response) \<times> world \<Rightarrow> (jserror + 'a option) \<times> world" where
  "data_only rw =
     (case rw of (Inl e, w) \<Rightarrow> (Inl e, w) | (Inr r, w) \<Rightarrow> (Inr (resp_data r), w))"

text \<open>
  \<open>xs.map((x, index) => ...)\<close> where the callback draws a fresh identifier: the elements
  are visited in order, \<open>index\<close> counting from the start value.
\<close>

fun map_indexed ::
  "(nat \<Rightarrow> 'a \<Rightarrow> world \<Rightarrow> 'b \<times> world) \<Rightarrow> nat \<Rightarrow> 'a list \<Rightarrow> world \<Rightarrow> 'b list \<times> world" where
  "map_indexed f index [] w = ([], w)"
| "map_indexed f index (x # xs) w =
     (case f index x w of (y, w1) \<Rightarrow>
        (case map_indexed f (Suc index) xs w1 of (ys, w2) \<Rightarrow> (y # ys, w2)))"

definition experience_row :: "string \<Rightarrow> nat \<Rightarrow> Experience \<Rightarrow> world \<Rightarrow> experiences_row \<times> world" where
  "experience_row resumeId index exp w =
     (case uuidv4 w of (u, w1) \<Rightarrow>
        (\<lparr>exprow_id = u,
          exprow_resume_id = resumeId,
          exprow_company = exp_company exp,
          exprow_position = exp_position exp,
          exprow_start_date = exp_startDate exp,
          exprow_end_date = exp_endDate exp,
          exprow_description = exp_description exp,
          exprow_order_index = index\<rparr>, w1))"

definition education_row :: "string \<Rightarrow> nat \<Rightarrow> Education \<Rightarrow> world \<Rightarrow> education_row \<times> world" where
  "education_row resumeId index edu w =
     (case uuidv4 w of (u, w1) \<Rightarrow>
        (\<lparr>edurow_id = u,
          edurow_resume_id = resumeId,
          edurow_institution = edu_institution edu,
          edurow_degree = edu_degree edu,
          edurow_field_of_study = edu_fieldOfStudy edu,
          edurow_start_date = edu_startDate edu,
          edurow_end_date = edu_endDate edu,
          edurow_description = edu_description edu,
          edurow_order_index = index\<rparr>, w1))"

definition certification_row ::
  "string \<Rightarrow> nat \<Rightarrow> Certification \<Rightarrow> world \<Rightarrow> certifications_row \<times> world" where
  "certification_row resumeId index cert w =
     (case uuidv4 w of (u, w1) \<Rightarrow>
        (\<lparr>certrow_id = u,
          certrow_resume_id = resumeId,
          certrow_name = cert_name cert,
          certrow_issuer = cert_issuer cert,
          certrow_date = cert_date cert,
          certrow_description = cert_description cert,
          certrow_order_index = index\<rparr>, w1))"

text \<open>
  The three blocks of \<open>saveResume\<close> that handle the child collections. The guard
  \<open>resume.experience && resume.experience.length > 0\<close> of a block is, for a list, the
  test that the list is not empty; the delete and the insert are both inside it.
\<close>

definition handle_experience_records ::
  "nat option \<Rightarrow> string \<Rightarrow> Experience list \<Rightarrow> world \<Rightarrow> (jserror + unit) \<times> world" where
  "handle_experience_records client resumeId experience w =
     (if experience \<noteq> [] then
        and_then (\<lambda>w. throw_if_error (request client (delete_experiences resumeId) w))
          (\<lambda>deleted w1.
             (case map_indexed (experience_row resumeId) 0 experience w1 of
                (experienceData, w2) \<Rightarrow>
                  and_then (\<lambda>w. throw_if_error (request client (insert_experiences experienceData) w))
                    (\<lambda>inserted w3. (Inr (), w3)) w2)) w
      else (Inr (), w))"

definition handle_education_records ::
  "nat option \<Rightarrow> string \<Rightarrow> Education list \<Rightarrow> world \<Rightarrow> (jserror + unit) \<times> world" where
  "handle_education_records client resumeId education w =
     (if education \<noteq> [] then
        and_then (\<lambda>w. throw_if_error (request client (delete_education resumeId) w))
          (\<lambda>deleted w1.
             (case map_indexed (education_row resumeId) 0 education w1 of
                (educationData, w2) \<Rightarrow>
                  and_then (\<lambda>w. throw_if_error (request client (insert_education educationData) w))
                    (\<lambda>inserted w3. (Inr (), w3)) w2)) w
      else (Inr (), w))"

definition handle_certification_records ::
  "nat option \<Rightarrow> string \<Rightarrow> Certification list \<Rightarrow> world \<Rightarrow> (jserror + unit) \<times> world" where
  "handle_certification_records client resumeId certifications w =
     (if certifications \<noteq> [] then
        and_then (\<lambda>w. throw_if_error (request client (delete_certifications resumeId) w))
          (\<lambda>deleted w1.
             (case map_indexed (certification_row resumeId) 0 certifications w1 of
                (certificationData, w2) \<Rightarrow>
                  and_then (\<lambda>w. throw_if_error (request client (insert_certifications certificationData) w))
                    (\<lambda>inserted w3. (Inr (), w3)) w2)) w
      else (Inr (), w))"

definition resumeData_of :: "string \<Rightarrow> Resume \<Rightarrow> nat \<Rightarrow> resumes_row" where
  "resumeData_of resumeId resume now =
     \<lparr>row_id = resumeId,
      row_name = r_name resume,
      row_email = r_email resume,
      row_phone = r_phone resume,
      row_location = r_location resume,
      row_linkedin = r_linkedin resume,
      row_website = r_website resume,
      row_summary = r_summary resume,
      row_skills = r_skills resume,
      row_created_at = now\<rparr>"

definition saveResume_operation ::
  "Resume \<Rightarrow> nat option \<Rightarrow> world \<Rightarrow> (jserror + string) \<times> world" where
  "saveResume_operation resume client w =
     (case (if r_id resume \<noteq> [] then (r_id resume, w) else uuidv4 w) of
        (resumeId, w0) \<Rightarrow>
          and_then (\<lambda>w. throw_if_error (request client
                       (upsert_resume (resumeData_of resumeId resume (clock w))) w))
            (\<lambda>upserted.
               and_then (handle_experience_records client resumeId (r_experience resume))
                 (\<lambda>u1.
                    and_then (handle_education_records client resumeId (r_education resume))
                      (\<lambda>u2.
                         and_then (handle_certification_records client resumeId
                                     (r_certifications resume))
                           (\<lambda>u3 w4. (Inr resumeId, w4))))) w0)"

record save_result =
  save_id :: string
  save_error :: "jserror option"

definition saveResume :: "Resume \<Rightarrow> world \<Rightarrow> save_result \<times> world" where
  "saveResume resume w =
     (case executeWithPermanentConnection (saveResume_operation resume) ''saveResume''
             default_maxRetries w of
        (Inr result, w1) \<Rightarrow> (\<lparr>save_id = result, save_error = None\<rparr>, w1)
      | (Inl error, w1) \<Rightarrow>
          (\<lparr>save_id = [], save_error = Some error\<rparr>,
           console_log (ErrorLine ''Error saving resume:'' error) w1))"

text \<open>
  The callbacks of the three \<open>map\<close> calls that turn rows back into entries, and the
  object literal that \<open>getResume\<close> and \<open>getAllResumes\<close> build. The column \<open>skills\<close>
  is a list here, so \<open>resumeData.skills || []\<close> is the column itself.
\<close>

definition Experience_of_row :: "experiences_row \<Rightarrow> Experience" where
  "Experience_of_row exp =
     \<lparr>exp_company = exprow_company exp,
      exp_position = exprow_position exp,
      exp_startDate = exprow_start_date exp,
      exp_endDate = exprow_end_date exp,
      exp_description = exprow_description exp\<rparr>"

definition Education_of_row :: "education_row \<Rightarrow> Education" where
  "Education_of_row edu =
     \<lparr>edu_institution = edurow_institution edu,
      edu_degree = edurow_degree edu,
      edu_fieldOfStudy = edurow_field_of_study edu,
      edu_startDate = edurow_start_date edu,
      edu_endDate = edurow_end_date edu,
      edu_description = edurow_description edu\<rparr>"

definition Certification_of_row :: "certifications_row \<Rightarrow> Certification" where
  "Certification_of_row cert =
     \<lparr>cert_name = certrow_name cert,
      cert_issuer = certrow_issuer cert,
      cert_date = certrow_date cert,
      cert_description = certrow_description cert\<rparr>"

definition Resume_of_rows ::
  "resumes_row \<Rightarrow> experiences_row list \<Rightarrow> education_row list \<Rightarrow> certifications_row list
     \<Rightarrow> Resume" where
  "Resume_of_rows resumeData experienceData educationData certificationData =
     \<lparr>r_id = row_id resumeData,
      r_name = row_name resumeData,
      r_email = row_email resumeData,
      r_phone = row_phone resumeData,
      r_location = row_location resumeData,
      r_linkedin = row_linkedin resumeData,
      r_website = row_website resumeData,
      r_summary = row_summary resumeData,
      r_skills = row_skills resumeData,
      r_experience = map Experience_of_row experienceData,
      r_education = map Education_of_row educationData,
      r_certifications = map Certification_of_row certificationData\<rparr>"

definition null_map :: jserror where
  "null_map = Error ''Cannot read properties of null (reading 'map')''"

text \<open>
  \<open>getResume\<close> calls \<open>map\<close> on the data of each child query as it is: data that is
  \<open>null\<close> throws a \<open>TypeError\<close>.
\<close>

definition getResume_operation ::
  "string \<Rightarrow> nat option \<Rightarrow> world \<Rightarrow> (jserror + Resume) \<times> world" where
  "getResume_operation ident client w =
     and_then (\<lambda>w. throw_if_error (request client (select_resume_single ident) w))
       (\<lambda>resumeData.
          (case resumeData of
             None \<Rightarrow> (\<lambda>w1. (Inl (Error ''Resume not found''), w1))
           | Some rd \<Rightarrow>
               and_then (\<lambda>w. throw_if_error (request client (select_experiences ident) w))
                 (\<lambda>experienceData.
                    and_then (\<lambda>w. throw_if_error (request client (select_education ident) w))
                      (\<lambda>educationData.
                         and_then (\<lambda>w. throw_if_error (request client (select_certifications ident) w))
                           (\<lambda>certificationData w4.
                              (case (experienceData, educationData, certificationData) of
                                 (Some es, Some ds, Some cs) \<Rightarrow>
                                   (Inr (Resume_of_rows rd es ds cs), w4)
                               | _ \<Rightarrow> (Inl null_map, w4))))))) w"

record get_result =
  get_resume :: "Resume option"
  get_error :: "jserror option"

definition getResume :: "string \<Rightarrow> world \<Rightarrow> get_result \<times> world" where
  "getResume ident w =
     (case executeWithPermanentConnection (getResume_operation ident) ''getResume''
             default_maxRetries w of
        (Inr result, w1) \<Rightarrow> (\<lparr>get_resume = Some result, get_error = None\<rparr>, w1)
      | (Inl error, w1) \<Rightarrow>
          (\<lparr>get_resume = None, get_error = Some error\<rparr>,
           console_log (ErrorLine ''Error fetching resume:'' error) w1))"

text \<open>
  \<open>getAllResumes\<close>: the child queries of one resume ignore the error field and read
  \<open>data || []\<close>.

  The callbacks handed to \<open>Promise.all\<close> run interleaved. Each issues its experience
  request when it is started, so these requests go out in the order of the rows. The
  order of the later requests depends on the order in which the answers arrive; the model
  takes the answers in the order of their requests, so that the education requests follow
  in the order of the rows, and then the certification requests. A callback whose request
  throws is rejected and issues no further request, the other callbacks go on, and
  \<open>Promise.all\<close> rejects with the rejection that came first. The model lets the other
  callbacks issue their remaining requests before the rejection is handled.

  \<open>issue_requests\<close> is one such round: the callbacks still running, in the order of the
  rows, each issue the request \<open>query\<close> and take their next state from its data;
  \<open>rejected\<close> is the first rejection so far.
\<close>

definition or_empty :: "'a list option \<Rightarrow> 'a list" where
  "or_empty d = (case d of None \<Rightarrow> [] | Some xs \<Rightarrow> xs)"

definition first_rejection :: "jserror option \<Rightarrow> jserror \<Rightarrow> jserror option" where
  "first_rejection rejected e = (case rejected of None \<Rightarrow> Some e | Some e0 \<Rightarrow> Some e0)"

fun issue_requests ::
  "nat option \<Rightarrow> ('s \<Rightarrow> database \<Rightarrow> 'r list response \<times> database) \<Rightarrow> ('s \<Rightarrow> 'r list \<Rightarrow> 't)
     \<Rightarrow> (jserror + 's) list \<Rightarrow> jserror option \<Rightarrow> world
     \<Rightarrow> ((jserror + 't) list \<times> jserror option) \<times> world" where
  "issue_requests client query next [] rejected w = (([], rejected), w)"
| "issue_requests client query next (Inl e # callbacks) rejected w =
     (case issue_requests client query next callbacks rejected w of
        ((states, rejected1), w1) \<Rightarrow> ((Inl e # states, rejected1), w1))"
| "issue_requests client query next (Inr s # callbacks) rejected w =
     (case data_only (request client (query s) w) of
        (Inl e, w1) \<Rightarrow>
          (case issue_requests client query next callbacks (first_rejection rejected e) w1 of
             ((states, rejected2), w2) \<Rightarrow> ((Inl e # states, rejected2), w2))
      | (Inr d, w1) \<Rightarrow>
          (case issue_requests client query next callbacks rejected w1 of
             ((states, rejected2), w2) \<Rightarrow> ((Inr (next s (or_empty d)) # states, rejected2), w2)))"

definition fulfilled :: "(jserror + 'a) list \<Rightarrow> 'a list" where
  "fulfilled states = concat (map (\<lambda>st. case st of Inl e \<Rightarrow> [] | Inr a \<Rightarrow> [a]) states)"

definition fetch_all_related ::
  "nat option \<Rightarrow> resumes_row list \<Rightarrow> world \<Rightarrow> (jserror + Resume list) \<times> world" where
  "fetch_all_related client resumesData w =
     (case issue_requests client
             (\<lambda>resumeData. select_experiences (row_id resumeData))
             (\<lambda>resumeData experienceData. (resumeData, experienceData))
             (map Inr resumesData) None w of
        ((states1, rejected1), w1) \<Rightarrow>
     (case issue_requests client
             (\<lambda>(resumeData, experienceData). select_education (row_id resumeData))
             (\<lambda>(resumeData, experienceData) educationData.
                (resumeData, experienceData, educationData))
             states1 rejected1 w1 of
        ((states2, rejected2), w2) \<Rightarrow>
     (case issue_requests client
             (\<lambda>(resumeData, experienceData, educationData).
                select_certifications (row_id resumeData))
             (\<lambda>(resumeData, experienceData, educationData) certificationData.
                Resume_of_rows resumeData experienceData educationData certificationData)
             states2 rejected2 w2 of
        ((states3, rejected3), w3) \<Rightarrow>
          (case rejected3 of
             Some e \<Rightarrow> (Inl e, w3)
           | None \<Rightarrow> (Inr (fulfilled states3), w3)))))"

definition getAllResumes_operation ::
  "nat option \<Rightarrow> world \<Rightarrow> (jserror + Resume list) \<times> world" where
  "getAllResumes_operation client w =
     and_then (\<lambda>w. throw_if_error (request client select_all_resumes w))
       (\<lambda>resumesData.
          (case resumesData of
             None \<Rightarrow> (\<lambda>w1. (Inl null_map, w1))
           | Some rows \<Rightarrow> fetch_all_related client rows)) w"

record getAll_result =
  getAll_resumes :: "Resume list"
  getAll_error :: "jserror option"

definition getAllResumes :: "world \<Rightarrow> getAll_result \<times> world" where
  "getAllResumes w =
     (case executeWithPermanentConnection getAllResumes_operation ''getAllResumes''
             default_maxRetries w of
        (Inr result, w1) \<Rightarrow> (\<lparr>getAll_resumes = result, getAll_error = None\<rparr>, w1)
      | (Inl error, w1) \<Rightarrow>
          (\<lparr>getAll_resumes = [], getAll_error = Some error\<rparr>,
           console_log (ErrorLine ''Error fetching all resumes:'' error) w1))"

definition deleteResume_operation ::
  "string \<Rightarrow> nat option \<Rightarrow> world \<Rightarrow> (jserror + unit) \<times> world" where
  "deleteResume_operation ident client w =
     and_then (\<lambda>w. throw_if_error (request client (delete_resume ident) w))
       (\<lambda>deleted w1. (Inr (), w1)) w"

record delete_result =
  delete_error :: "jserror option"

definition deleteResume :: "string \<Rightarrow> world \<Rightarrow> delete_result \<times> world" where
  "deleteResume ident w =
     (case executeWithPermanentConnection (deleteResume_operation ident) ''deleteResume''
             default_maxRetries w of
        (Inr result, w1) \<Rightarrow> (\<lparr>delete_error = None\<rparr>, w1)
      | (Inl error, w1) \<Rightarrow>
          (\<lparr>delete_error = Some error\<rparr>,
           console_log (ErrorLine ''Error deleting resume:'' error) w1))"

section \<open>A repository operation of the single-client variant\<close>

text \<open>
  The single-client variant creates one client, \<open>supabase\<close>, when its module is loaded,
  and runs every operation through \<open>withRetry\<close>. Its \<open>deleteResume\<close> is modelled, as
  \<open>deleteResume_withRetry\<close>; the \<open>catch\<close> after \<open>withRetry\<close> turns a thrown error into
  the error field.
\<close>

definition supabase :: "nat option" where
  "supabase = Some 0"

definition withRetry_deleteResume_operation ::
  "string \<Rightarrow> world \<Rightarrow> (jserror + delete_result) \<times> world" where
  "withRetry_deleteResume_operation ident w =
     and_then (\<lambda>w. throw_if_error (request supabase (delete_resume ident) w))
       (\<lambda>deleted w1. (Inr \<lparr>delete_error = None\<rparr>, w1)) w"

definition deleteResume_withRetry ::
  "(string \<Rightarrow> string) \<Rightarrow> string \<Rightarrow> world \<Rightarrow> delete_result \<times> world" where
  "deleteResume_withRetry toLowerCase ident w =
     (case withRetry toLowerCase (withRetry_deleteResume_operation ident) ''deleteResume'' w of
        (Inr result, w1) \<Rightarrow> (result, w1)
      | (Inl error, w1) \<Rightarrow>
          (\<lparr>delete_error = Some error\<rparr>,
           console_log (ErrorLine ''Error deleting resume:'' error) w1))"

section \<open>Sustained faults\<close>

text \<open>
  The error a request ends with under a fault: the error object the store answers with,
  or the error the transport throws.
\<close>

definition fault_error :: "fault \<Rightarrow> jserror option" where
  "fault_error f = (case f of NoFault \<Rightarrow> None | ReturnsError e \<Rightarrow> Some e | Throws e \<Rightarrow> Some e)"

text \<open>
  An operation whose first request is checked: run with a defined handle in a world
  whose next request fails, it makes that one request and throws its error, and leaves the
  pool, the console and the record of waits as they are.
\<close>

definition aborts_on_fault :: "(nat option \<Rightarrow> world \<Rightarrow> (jserror + 'a) \<times> world) \<Rightarrow> bool" where
  "aborts_on_fault operation =
     (\<forall>c w f e fs. faults w = f # fs \<and> fault_error f = Some e \<longrightarrow>
        (\<exists>w'. operation (Some c) w = (Inl e, w') \<and> faults w' = fs
           \<and> connectionPool w' = connectionPool w
           \<and> console w' = console w \<and> sleeps w' = sleeps w))"

text \<open>
  \<open>toLowerCase\<close> on strings of ASCII characters, where only the letters A to Z change:
  for running \<open>isRetryable\<close> on messages of ASCII characters.
\<close>

definition ascii_toLowerCase_char :: "char \<Rightarrow> char" where
  "ascii_toLowerCase_char c =
     (if 65 \<le> (of_char c :: nat) \<and> (of_char c :: nat) \<le> 90
      then char_of ((of_char c :: nat) + 32) else c)"

definition ascii_toLowerCase :: "string \<Rightarrow> string" where
  "ascii_toLowerCase s = map ascii_toLowerCase_char s"

section \<open>Runs of the pool\<close>

text \<open>
  The pool is touched by three things after its construction: a caller asks for a handle,
  the runtime fires the health-check timer, or \<open>destroy\<close> is called.
  \<open>getClient_calls\<close> counts the calls of \<open>getClient\<close> a step makes; the health check
  makes one when its timer is still active.
\<close>

datatype pool_call = GetClient | IntervalFires | Destroy

fun pool_call_step :: "pool_call \<Rightarrow> world \<Rightarrow> world" where
  "pool_call_step GetClient w = snd (getClient w)"
| "pool_call_step IntervalFires w = interval_fires w"
| "pool_call_step Destroy w = destroy w"

definition health_check_active :: "world \<Rightarrow> bool" where
  "health_check_active w =
     (case healthCheckInterval (connectionPool w) of
        None \<Rightarrow> False | Some t \<Rightarrow> t \<in> set (intervals w))"

fun getClient_calls :: "pool_call \<Rightarrow> world \<Rightarrow> nat" where
  "getClient_calls GetClient w = 1"
| "getClient_calls IntervalFires w = (if health_check_active w then 1 else 0)"
| "getClient_calls Destroy w = 0"

fun run_pool_calls :: "pool_call list \<Rightarrow> world \<Rightarrow> world" where
  "run_pool_calls [] w = w"
| "run_pool_calls (c # cs) w = run_pool_calls cs (pool_call_step c w)"

fun count_getClient :: "pool_call list \<Rightarrow> world \<Rightarrow> nat" where
  "count_getClient [] w = 0"
| "count_getClient (c # cs) w = getClient_calls c w + count_getClient cs (pool_call_step c w)"

text \<open>The state of the pool in every world that follows its construction.\<close>

definition pool_inv :: "world \<Rightarrow> bool" where
  "pool_inv w = (length (clients (connectionPool w)) = poolSize
                 \<and> currentIndex (connectionPool w) < poolSize)"

section \<open>Worlds and resumes to run the code on\<close>

definition empty_database :: database where
  "empty_database =
     \<lparr>resumes = [], resume_experiences = [], resume_education = [], resume_certifications = []\<rparr>"

definition example_uuid :: "nat \<Rightarrow> string" where
  "example_uuid n = ''uuid-'' @ replicate (Suc n) (CHR ''x'')"

text \<open>The world when the module is loaded, before the pool is constructed.\<close>

definition blank_world :: "fault list \<Rightarrow> world" where
  "blank_world fs =
     \<lparr>connectionPool = \<lparr>clients = [], currentIndex = 0, healthCheckInterval = None\<rparr>,
      backend = empty_database,
      faults = fs,
      uuid_source = example_uuid,
      uuid_count = 0,
      client_count = 0,
      intervals = [],
      interval_count = 0,
      clock = 0,
      sleeps = [],
      console = []\<rparr>"

definition example_world :: "fault list \<Rightarrow> world" where
  "example_world fs = new_SupabaseConnectionPool (blank_world fs)"

definition job_a :: Experience where
  "job_a = \<lparr>exp_company = ''Acme'', exp_position = ''Engineer'', exp_startDate = ''2020-01'',
           exp_endDate = ''2021-06'', exp_description = ''Built things''\<rparr>"

definition job_b :: Experience where
  "job_b = \<lparr>exp_company = ''Globex'', exp_position = ''Lead'', exp_startDate = ''2021-07'',
           exp_endDate = ''2023-02'', exp_description = ''Led things''\<rparr>"

definition school_a :: Education where
  "school_a = \<lparr>edu_institution = ''MIT'', edu_degree = ''BSc'', edu_fieldOfStudy = ''CS'',
              edu_startDate = ''2015'', edu_endDate = ''2019'', edu_description = ''Honours''\<rparr>"

definition cert_a :: Certification where
  "cert_a = \<lparr>cert_name = ''AWS SA'', cert_issuer = ''Amazon'', cert_date = ''2022'',
            cert_description = ''Associate''\<rparr>"

definition example_resume :: "Experience list \<Rightarrow> Education list \<Rightarrow> Certification list \<Rightarrow> Resume" where
  "example_resume es ds cs =
     \<lparr>r_id = ''r1'', r_name = ''Ada'', r_email = ''ada@example.org'', r_phone = ''555'',
      r_location = ''London'', r_linkedin = ''in/ada'', r_website = ''ada.dev'',
      r_summary = ''Engineer'', r_skills = [''ts'', ''sql''],
      r_experience = es, r_education = ds, r_certifications = cs\<rparr>"

text \<open>
  The lines the pooled executor logs for attempts \<open>k + 1\<close>, \<open>k + 2\<close>, ... that failed
  with the errors \<open>es\<close>, in this order.
\<close>

definition attempt_lines :: "string \<Rightarrow> nat \<Rightarrow> jserror list \<Rightarrow> console_line list" where
  "attempt_lines name k es = map (\<lambda>(j, e). Attempt name j e) (zip [Suc k ..< Suc k + length es] es)"

section \<open>Relations between the store before and after a save\<close>

text \<open>
  The table of a child collection after the block that handles the collection \<open>xs\<close> of
  the resume \<open>rid\<close> has run without an error: untouched when \<open>xs\<close> is empty; otherwise
  the rows of \<open>rid\<close> are gone, and the new rows follow the rows of the other resumes, one
  per entry, in the order of \<open>xs\<close>, with the order keys \<open>0, 1, ...\<close>.
\<close>

definition replaced_by ::
  "('r \<Rightarrow> string) \<Rightarrow> ('r \<Rightarrow> nat) \<Rightarrow> ('r \<Rightarrow> 'e) \<Rightarrow> string \<Rightarrow> 'e list \<Rightarrow> 'r list \<Rightarrow> 'r list \<Rightarrow> bool" where
  "replaced_by resume_id_of order_index_of entry_of rid xs old new =
     (\<exists>rows. new = (if xs = [] then old
                     else filter (\<lambda>r. resume_id_of r \<noteq> rid) old @ rows)
        \<and> map entry_of rows = xs
        \<and> map order_index_of rows = [0 ..< length xs]
        \<and> (\<forall>r \<in> set rows. resume_id_of r = rid))"

text \<open>The identifier \<open>saveResume\<close> resolves: \<open>resume.id || uuidv4()\<close>.\<close>

definition resolved_id :: "Resume \<Rightarrow> world \<Rightarrow> string" where
  "resolved_id resume w = (if r_id resume \<noteq> [] then r_id resume else uuid_source w (uuid_count w))"

text \<open>The world \<open>w'\<close> after a save of \<open>resume\<close> in \<open>w\<close> in which no request failed.\<close>

definition saved :: "Resume \<Rightarrow> world \<Rightarrow> world \<Rightarrow> bool" where
  "saved resume w w' =
     (faults w' = [] \<and> pool_inv w'
      \<and> resumes (backend w') =
          resumes (snd (upsert_resume (resumeData_of (resolved_id resume w) resume (clock w))
                          (backend w)))
      \<and> replaced_by exprow_resume_id exprow_order_index Experience_of_row
           (resolved_id resume w) (r_experience resume)
           (resume_experiences (backend w)) (resume_experiences (backend w'))
      \<and> replaced_by edurow_resume_id edurow_order_index Education_of_row
           (resolved_id resume w) (r_education resume)
           (resume_education (backend w)) (resume_education (backend w'))
      \<and> replaced_by certrow_resume_id certrow_order_index Certification_of_row
           (resolved_id resume w) (r_certifications resume)
           (resume_certifications (backend w)) (resume_certifications (backend w')))"

text \<open>The rows of one resume in a child table, as the ordered \<open>select\<close> returns them.\<close>

definition experiences_of :: "string \<Rightarrow> world \<Rightarrow> experiences_row list" where
  "experiences_of ident w =
     sort_key exprow_order_index
       (filter (\<lambda>r. exprow_resume_id r = ident) (resume_experiences (backend w)))"

definition education_of :: "string \<Rightarrow> world \<Rightarrow> education_row list" where
  "education_of ident w =
     sort_key edurow_order_index
       (filter (\<lambda>r. edurow_resume_id r = ident) (resume_education (backend w)))"

definition certifications_of :: "string \<Rightarrow> world \<Rightarrow> certifications_row list" where
  "certifications_of ident w =
     sort_key certrow_order_index
       (filter (\<lambda>r. certrow_resume_id r = ident) (resume_certifications (backend w)))"

text \<open>The aggregate that a save followed by a read of the returned identifier yields.\<close>

definition read_back :: "Resume \<Rightarrow> world \<Rightarrow> Resume" where
  "read_back resume w =
     \<lparr>r_id = resolved_id resume w,
      r_name = r_name resume,
      r_email = r_email resume,
      r_phone = r_phone resume,
      r_location = r_location resume,
      r_linkedin = r_linkedin resume,
      r_website = r_website resume,
      r_summary = r_summary resume,
      r_skills = r_skills resume,
      r_experience =
        (if r_experience resume \<noteq> [] then r_experience resume
         else map Experience_of_row (experiences_of (resolved_id resume w) w)),
      r_education =
        (if r_education resume \<noteq> [] then r_education resume
         else map Education_of_row (education_of (resolved_id resume w) w)),
      r_certifications =
        (if r_certifications resume \<noteq> [] then r_certifications resume
         else map Certification_of_row (certifications_of (resolved_id resume w) w))\<rparr>"

definition cert_b :: Certification where
  "cert_b = \<lparr>cert_name = ''CKA'', cert_issuer = ''CNCF'', cert_date = ''2023'',
            cert_description = ''Administrator''\<rparr>"

text \<open>A store that holds the child rows of resume \<open>r1\<close> out of the order of their keys.\<close>

definition shuffled_database :: database where
  "shuffled_database =
     \<lparr>resumes = [resumeData_of ''r1'' (example_resume [] [] []) 7],
      resume_experiences =
        [fst (experience_row ''r1'' 1 job_b (blank_world [])),
         fst (experience_row ''r2'' 0 job_b (blank_world [])),
         fst (experience_row ''r1'' 0 job_a (blank_world []))],
      resume_education = [fst (education_row ''r1'' 0 school_a (blank_world []))],
      resume_certifications =
        [fst (certification_row ''r1'' 1 cert_b (blank_world [])),
         fst (certification_row ''r1'' 0 cert_a (blank_world []))]\<rparr>"

definition shuffled_world :: world where
  "shuffled_world = (example_world [])\<lparr>backend := shuffled_database\<rparr>"

text \<open>A world whose next five requests throw.\<close>

definition fetch_failed :: jserror where
  "fetch_failed = Error ''Failed to fetch''"

definition unreachable_world :: world where
  "unreachable_world =
     example_world [Throws fetch_failed, Throws fetch_failed, Throws fetch_failed,
                    Throws fetch_failed, Throws fetch_failed]"

section \<open>The pool: construction and round robin\<close>


lemma initializePool_from_eq:
  "initializePool_from i w =
     w\<lparr>connectionPool := (connectionPool w)\<lparr>clients :=
          clients (connectionPool w) @ [client_count w ..< client_count w + (poolSize - i)]\<rparr>,
       client_count := client_count w + (poolSize - i)\<rparr>"
proof (induction i w rule: initializePool_from.induct)
  case (1 i w)
  show ?case
  proof (cases "i < poolSize")
    case True
    then have d: "poolSize - i = Suc (poolSize - Suc i)" by simp
    show ?thesis
      using True "1.IH"[OF True, of "fst (createSupabaseClient w)" "snd (createSupabaseClient w)"]
      apply (subst initializePool_from.simps)
      apply (simp add: createSupabaseClient_def d upt_rec[of "client_count w"] del: upt_Suc)
      done
  next
    case False
    then show ?thesis by (subst initializePool_from.simps) simp
  qed
qed

lemma refreshPool_eq:
  "refreshPool w = w\<lparr>connectionPool := (connectionPool w)\<lparr>clients :=
          [client_count w ..< client_count w + poolSize]\<rparr>,
       client_count := client_count w + poolSize\<rparr>"
  by (simp add: refreshPool_def initializePool_def initializePool_from_eq)

lemma new_pool_eq:
  "new_SupabaseConnectionPool w =
     w\<lparr>connectionPool := \<lparr>clients = [client_count w ..< client_count w + poolSize],
            currentIndex = 0, healthCheckInterval = Some (Suc (interval_count w))\<rparr>,
       client_count := client_count w + poolSize,
       intervals := intervals w @ [Suc (interval_count w)],
       interval_count := Suc (interval_count w)\<rparr>"
  by (simp add: new_SupabaseConnectionPool_def initializePool_def initializePool_from_eq
      startHealthCheck_def setInterval_def)


lemma getClient_pool:
  "connectionPool (snd (getClient w)) =
     (connectionPool w)\<lparr>currentIndex := (currentIndex (connectionPool w) + 1) mod poolSize\<rparr>"
  by (simp add: getClient_def Let_def)

lemma getClient_intervals: "intervals (snd (getClient w)) = intervals w"
  by (simp add: getClient_def Let_def)

lemma getClient_result:
  "pool_inv w \<Longrightarrow>
     fst (getClient w) = Some (clients (connectionPool w) ! currentIndex (connectionPool w))"
  by (simp add: getClient_def Let_def pool_inv_def)

lemma request_pool: "connectionPool (snd (request c q w)) = connectionPool w"
  by (simp add: request_def perform_def split: option.splits list.splits fault.splits prod.splits)

lemma request_intervals: "intervals (snd (request c q w)) = intervals w"
  by (simp add: request_def perform_def split: option.splits list.splits fault.splits prod.splits)

lemma performHealthCheck_index:
  "currentIndex (connectionPool (performHealthCheck w)) =
     (currentIndex (connectionPool w) + 1) mod poolSize"
proof -
  obtain c w1 where g: "getClient w = (c, w1)" by (cases "getClient w")
  obtain r w2 where q: "request c select_count w1 = (r, w2)" by (cases "request c select_count w1")
  have p1: "connectionPool w1 =
      (connectionPool w)\<lparr>currentIndex := (currentIndex (connectionPool w) + 1) mod poolSize\<rparr>"
    using getClient_pool[of w] g by simp
  have p2: "connectionPool w2 = connectionPool w1"
    using request_pool[of c select_count w1] q by simp
  show ?thesis
    by (cases r) (simp_all add: performHealthCheck_def g q p1 p2 refreshPool_eq console_log_def)
qed

lemma performHealthCheck_length:
  "length (clients (connectionPool w)) = poolSize \<Longrightarrow>
   length (clients (connectionPool (performHealthCheck w))) = poolSize"
proof -
  assume a: "length (clients (connectionPool w)) = poolSize"
  obtain c w1 where g: "getClient w = (c, w1)" by (cases "getClient w")
  obtain r w2 where q: "request c select_count w1 = (r, w2)" by (cases "request c select_count w1")
  have p1: "connectionPool w1 =
      (connectionPool w)\<lparr>currentIndex := (currentIndex (connectionPool w) + 1) mod poolSize\<rparr>"
    using getClient_pool[of w] g by simp
  have p2: "connectionPool w2 = connectionPool w1"
    using request_pool[of c select_count w1] q by simp
  show ?thesis
    by (cases r) (simp_all add: performHealthCheck_def g q p1 p2 refreshPool_eq console_log_def a)
qed

lemma performHealthCheck_intervals:
  "intervals (performHealthCheck w) = intervals w"
proof -
  obtain c w1 where g: "getClient w = (c, w1)" by (cases "getClient w")
  obtain r w2 where q: "request c select_count w1 = (r, w2)" by (cases "request c select_count w1")
  have p1: "intervals w1 = intervals w"
    using getClient_intervals[of w] g by simp
  have p2: "intervals w2 = intervals w1"
    using request_intervals[of c select_count w1] q by simp
  show ?thesis
    by (cases r) (simp_all add: performHealthCheck_def g q p1 p2 refreshPool_eq console_log_def)
qed

lemma performHealthCheck_timer:
  "healthCheckInterval (connectionPool (performHealthCheck w)) = healthCheckInterval (connectionPool w)"
proof -
  obtain c w1 where g: "getClient w = (c, w1)" by (cases "getClient w")
  obtain r w2 where q: "request c select_count w1 = (r, w2)" by (cases "request c select_count w1")
  have p1: "connectionPool w1 =
      (connectionPool w)\<lparr>currentIndex := (currentIndex (connectionPool w) + 1) mod poolSize\<rparr>"
    using getClient_pool[of w] g by simp
  have p2: "connectionPool w2 = connectionPool w1"
    using request_pool[of c select_count w1] q by simp
  show ?thesis
    by (cases r) (simp_all add: performHealthCheck_def g q p1 p2 refreshPool_eq console_log_def)
qed

lemma destroy_pool: "connectionPool (destroy w) = connectionPool w"
  by (simp add: destroy_def clearInterval_def split: option.splits)

lemma step_length:
  "length (clients (connectionPool w)) = poolSize \<Longrightarrow>
   length (clients (connectionPool (pool_call_step c w))) = poolSize"
  by (cases c) (simp_all add: getClient_pool interval_fires_def performHealthCheck_length
      destroy_pool split: option.splits)

lemma step_index:
  "currentIndex (connectionPool (pool_call_step c w)) =
     (currentIndex (connectionPool w) + getClient_calls c w) mod poolSize"
  if "currentIndex (connectionPool w) < poolSize"
  using that
  by (cases c) (simp_all add: getClient_pool interval_fires_def health_check_active_def
      performHealthCheck_index destroy_pool split: option.splits)

lemma step_inv: "pool_inv w \<Longrightarrow> pool_inv (pool_call_step c w)"
  unfolding pool_inv_def using step_length[of w c] step_index[of w c]
  by (simp add: poolSize_def)

lemma run_inv: "pool_inv w \<Longrightarrow> pool_inv (run_pool_calls cs w)"
  by (induction cs arbitrary: w) (simp_all add: step_inv)

lemma run_index:
  "pool_inv w \<Longrightarrow>
   currentIndex (connectionPool (run_pool_calls cs w)) =
     (currentIndex (connectionPool w) + count_getClient cs w) mod poolSize"
proof (induction cs arbitrary: w)
  case Nil
  then show ?case by (simp add: pool_inv_def)
next
  case (Cons c cs)
  have i: "pool_inv (pool_call_step c w)" using Cons.prems by (rule step_inv)
  have s: "currentIndex (connectionPool (pool_call_step c w)) =
     (currentIndex (connectionPool w) + getClient_calls c w) mod poolSize"
    using Cons.prems by (simp add: step_index pool_inv_def)
  show ?case
    by (simp add: Cons.IH[OF i] s mod_add_left_eq add.assoc)
qed

lemma new_pool_inv: "pool_inv (new_SupabaseConnectionPool w)"
  by (simp add: new_pool_eq pool_inv_def poolSize_def)

text \<open>
  C8. After the construction of the pool and any sequence of calls to it (handles asked
  for, health checks fired by the timer, \<open>destroy\<close>), \<open>getClient\<close> does not fail: it
  returns a handle, not \<open>undefined\<close>. The handle it returns is the one at index
  \<open>i mod 5\<close> of the current set of five, where \<open>i\<close> is the number of calls of
  \<open>getClient\<close> made so far, those of the health check included.
\<close>

theorem getClient_round_robin:
  "fst (getClient (run_pool_calls cs (new_SupabaseConnectionPool w0))) =
     Some (clients (connectionPool (run_pool_calls cs (new_SupabaseConnectionPool w0)))
             ! (count_getClient cs (new_SupabaseConnectionPool w0) mod 5))
   \<and> length (clients (connectionPool (run_pool_calls cs (new_SupabaseConnectionPool w0)))) = 5"
proof -
  let ?w1 = "new_SupabaseConnectionPool w0"
  have i: "pool_inv (run_pool_calls cs ?w1)" by (rule run_inv[OF new_pool_inv])
  have c: "currentIndex (connectionPool (run_pool_calls cs ?w1)) = count_getClient cs ?w1 mod 5"
    using run_index[OF new_pool_inv, of cs w0] by (simp add: new_pool_eq poolSize_def)
  show ?thesis
    using getClient_result[OF i] i by (simp add: c pool_inv_def poolSize_def)
qed

section \<open>Stopping the health check\<close>


lemma destroy_idem: "destroy (destroy w) = destroy w"
  by (simp add: destroy_def clearInterval_def split: option.splits)

lemma destroy_halts:
  "healthCheckInterval (connectionPool w) \<noteq> Some 0 \<Longrightarrow> \<not> health_check_active (destroy w)"
  by (simp add: destroy_def clearInterval_def health_check_active_def split: option.splits)

lemma inactive_fires: "\<not> health_check_active w \<Longrightarrow> interval_fires w = w"
  by (simp add: interval_fires_def health_check_active_def split: option.splits)

lemma inactive_destroy: "\<not> health_check_active w \<Longrightarrow> destroy w = w"
  by (simp add: destroy_def clearInterval_def health_check_active_def split: option.splits)

lemma getClient_timer:
  "healthCheckInterval (connectionPool (snd (getClient w))) = healthCheckInterval (connectionPool w)"
  by (simp add: getClient_pool)

lemma destroy_intervals_subset: "set (intervals (destroy w)) \<subseteq> set (intervals w)"
  by (auto simp add: destroy_def clearInterval_def split: option.splits)

lemma step_active:
  "\<not> health_check_active w \<Longrightarrow> \<not> health_check_active (pool_call_step c w)"
  apply (cases c)
    apply (simp add: health_check_active_def getClient_pool getClient_intervals split: option.splits)
   apply (simp add: inactive_fires)
  apply (simp add: inactive_destroy)
  done

lemma run_active:
  "\<not> health_check_active w \<Longrightarrow> \<not> health_check_active (run_pool_calls cs w)"
  by (induction cs arbitrary: w) (simp_all add: step_active)

lemma new_pool_timer: "healthCheckInterval (connectionPool (new_SupabaseConnectionPool w)) \<noteq> Some 0"
  by (simp add: new_pool_eq)

lemma new_pool_active: "health_check_active (new_SupabaseConnectionPool w)"
  by (simp add: new_pool_eq health_check_active_def)

lemma step_timer:
  "healthCheckInterval (connectionPool (pool_call_step c w)) = healthCheckInterval (connectionPool w)"
  by (cases c) (simp_all add: getClient_pool interval_fires_def performHealthCheck_timer destroy_pool
      split: option.splits)

lemma run_timer:
  "healthCheckInterval (connectionPool (run_pool_calls cs w)) = healthCheckInterval (connectionPool w)"
  by (induction cs arbitrary: w) (simp_all add: step_timer)

text \<open>
  C9. \<open>destroy\<close>, and \<open>cleanup\<close>, which is \<open>destroy\<close> on the pool of the module, are
  idempotent: a second call changes nothing. Neither changes the pool itself. After the
  construction of the pool the health check is active; after any calls to the pool
  followed by \<open>destroy\<close> or by \<open>cleanup\<close> it is not, so a firing of the timer does
  nothing, and a later \<open>destroy\<close> or \<open>cleanup\<close>, whatever calls to the pool came in
  between, changes nothing.
\<close>

theorem destroy_idempotent:
  "destroy (destroy w) = destroy w
   \<and> cleanup (cleanup w) = cleanup w
   \<and> cleanup w = destroy w
   \<and> connectionPool (cleanup w) = connectionPool w
   \<and> health_check_active (new_SupabaseConnectionPool w0)
   \<and> \<not> health_check_active (destroy (run_pool_calls cs (new_SupabaseConnectionPool w0)))
   \<and> interval_fires (destroy (run_pool_calls cs (new_SupabaseConnectionPool w0)))
       = destroy (run_pool_calls cs (new_SupabaseConnectionPool w0))
   \<and> destroy (run_pool_calls cs' (destroy (run_pool_calls cs (new_SupabaseConnectionPool w0))))
       = run_pool_calls cs' (destroy (run_pool_calls cs (new_SupabaseConnectionPool w0)))
   \<and> \<not> health_check_active (cleanup (run_pool_calls cs (new_SupabaseConnectionPool w0)))
   \<and> interval_fires (cleanup (run_pool_calls cs (new_SupabaseConnectionPool w0)))
       = cleanup (run_pool_calls cs (new_SupabaseConnectionPool w0))
   \<and> cleanup (run_pool_calls cs' (cleanup (run_pool_calls cs (new_SupabaseConnectionPool w0))))
       = run_pool_calls cs' (cleanup (run_pool_calls cs (new_SupabaseConnectionPool w0)))"
proof -
  let ?w = "run_pool_calls cs (new_SupabaseConnectionPool w0)"
  have t: "healthCheckInterval (connectionPool ?w) \<noteq> Some 0"
    by (simp add: run_timer new_pool_timer)
  have h: "\<not> health_check_active (destroy ?w)" using t by (rule destroy_halts)
  have r: "\<not> health_check_active (run_pool_calls cs' (destroy ?w))" using h by (rule run_active)
  show ?thesis
    using h inactive_fires[OF h] inactive_destroy[OF r]
    by (simp add: destroy_idem cleanup_def new_pool_active destroy_pool)
qed

text \<open>
  C10. \<open>testConnection\<close> returns a boolean for every outcome of its probe: \<open>true\<close>
  when the probe answers without an error, \<open>false\<close> when it answers with an error
  object and when it throws (the transport, or a handle that is \<open>undefined\<close>).
\<close>

theorem testConnection_outcomes:
  "fst (testConnection w) =
     (case fst (getSupabaseClient w) of
        None \<Rightarrow> False
      | Some c \<Rightarrow>
          (case faults w of
             [] \<Rightarrow> True
           | NoFault # fs \<Rightarrow> True
           | ReturnsError e # fs \<Rightarrow> False
           | Throws e # fs \<Rightarrow> False))"
  by (simp add: testConnection_def getSupabaseClient_def getClient_def Let_def request_def
      perform_def select_count_def split: option.splits list.splits fault.splits prod.splits sum.splits)

section \<open>The executors\<close>


lemma getSupabaseClient_console: "console (snd (getSupabaseClient w)) = console w"
  by (simp add: getSupabaseClient_def getClient_def Let_def)

lemma getSupabaseClient_sleeps: "sleeps (snd (getSupabaseClient w)) = sleeps w"
  by (simp add: getSupabaseClient_def getClient_def Let_def)

lemma exec_loop_done:
  "\<not> attempt < maxRetries \<Longrightarrow>
   executeWithPermanentConnection_loop operation name maxRetries attempt lastError w
     = (Inl lastError, w)"
  by (subst executeWithPermanentConnection_loop.simps) simp

lemma exec_loop_success:
  "attempt < maxRetries \<Longrightarrow> getSupabaseClient w = (c, w1) \<Longrightarrow> operation c w1 = (Inr r, w2) \<Longrightarrow>
   executeWithPermanentConnection_loop operation name maxRetries attempt lastError w = (Inr r, w2)"
  by (subst executeWithPermanentConnection_loop.simps) simp

lemma exec_loop_retry:
  "attempt + 1 < maxRetries \<Longrightarrow> getSupabaseClient w = (c, w1) \<Longrightarrow> operation c w1 = (Inl e, w2) \<Longrightarrow>
   executeWithPermanentConnection_loop operation name maxRetries attempt lastError w
     = executeWithPermanentConnection_loop operation name maxRetries (attempt + 1) e
         (sleep (100 * (attempt + 1)) (console_log (Attempt name (attempt + 1) e) w2))"
proof -
  assume a: "attempt + 1 < maxRetries" "getSupabaseClient w = (c, w1)" "operation c w1 = (Inl e, w2)"
  then have b: "attempt < maxRetries" "attempt < maxRetries - 1" by simp_all
  show ?thesis
    by (subst executeWithPermanentConnection_loop.simps) (simp add: Let_def a b del: One_nat_def)
qed

lemma exec_loop_last:
  "attempt + 1 = maxRetries \<Longrightarrow> getSupabaseClient w = (c, w1) \<Longrightarrow> operation c w1 = (Inl e, w2) \<Longrightarrow>
   executeWithPermanentConnection_loop operation name maxRetries attempt lastError w
     = (Inl e, console_log (Attempt name (attempt + 1) e) w2)"
proof -
  assume a: "attempt + 1 = maxRetries" "getSupabaseClient w = (c, w1)" "operation c w1 = (Inl e, w2)"
  then have b: "attempt < maxRetries" "\<not> attempt < maxRetries - 1" by simp_all
  have c: "\<not> attempt + 1 < maxRetries" using a by simp
  show ?thesis
    by (subst executeWithPermanentConnection_loop.simps)
       (simp add: Let_def a(2,3) b exec_loop_done[OF c] del: One_nat_def)
qed

lemma exec_first_success:
  "0 < maxRetries \<Longrightarrow> getSupabaseClient w = (c, w1) \<Longrightarrow> operation c w1 = (Inr r, w2) \<Longrightarrow>
   executeWithPermanentConnection operation name maxRetries w = (Inr r, w2)"
  by (simp add: executeWithPermanentConnection_def exec_loop_success)

lemma attempt_lines_Cons:
  "attempt_lines name k (e # es) = Attempt name (Suc k) e # attempt_lines name (Suc k) es"
  by (simp add: attempt_lines_def upt_rec[of "Suc k"] del: upt_Suc)



lemma wr_success:
  "attempt \<le> RETRY_CONFIG_maxRetries \<Longrightarrow> operation w = (Inr r, w1) \<Longrightarrow>
   withRetry_loop toLowerCase operation name attempt lastError w = (Inr r, w1)"
  by (subst withRetry_loop.simps) simp

lemma wr_fatal:
  "attempt \<le> RETRY_CONFIG_maxRetries \<Longrightarrow> operation w = (Inl e, w1)
   \<Longrightarrow> \<not> isRetryable toLowerCase e \<Longrightarrow>
   withRetry_loop toLowerCase operation name attempt lastError w
     = (Inl e, console_log (AttemptFailed name (attempt + 1) e) w1)"
  by (subst withRetry_loop.simps) (simp add: Let_def throw_lastError_def)

lemma wr_last:
  "attempt = RETRY_CONFIG_maxRetries \<Longrightarrow> operation w = (Inl e, w1) \<Longrightarrow>
   withRetry_loop toLowerCase operation name attempt lastError w
     = (Inl e, console_log (AttemptFailed name (attempt + 1) e) w1)"
  by (subst withRetry_loop.simps) (simp add: Let_def throw_lastError_def)

lemma wr_retry:
  "attempt < RETRY_CONFIG_maxRetries \<Longrightarrow> operation w = (Inl e, w1)
   \<Longrightarrow> isRetryable toLowerCase e \<Longrightarrow>
   withRetry_loop toLowerCase operation name attempt lastError w
     = withRetry_loop toLowerCase operation name (attempt + 1) (Some e)
         (sleep (calculateDelay attempt)
            (console_log (Retrying name (calculateDelay attempt))
               (console_log (AttemptFailed name (attempt + 1) e) w1)))"
  by (subst withRetry_loop.simps) (simp add: Let_def)

lemma calculateDelay_eq: "calculateDelay k = min (1000 * 2 ^ k) 5000"
  by (simp add: calculateDelay_def RETRY_CONFIG_baseDelay_def RETRY_CONFIG_maxDelay_def Let_def)

lemma calculateDelay_mono: "k \<le> k' \<Longrightarrow> calculateDelay k \<le> calculateDelay k'"
proof -
  assume "k \<le> k'"
  then have "(2::nat) ^ k \<le> 2 ^ k'" by (simp add: power_increasing)
  then have "(1000::nat) * 2 ^ k \<le> 1000 * 2 ^ k'" by simp
  then show ?thesis unfolding calculateDelay_eq by (simp add: min_le_iff_disj)
qed

section \<open>Runs of the executors\<close>

text \<open>Facts for running the code on the example worlds.\<close>

lemma exec_loop_unfold:
  "attempt < maxRetries \<Longrightarrow>
   executeWithPermanentConnection_loop operation operationName maxRetries attempt lastError w =
        (case getSupabaseClient w of (client, w1) \<Rightarrow>
           (case operation client w1 of
              (Inr result, w2) \<Rightarrow> (Inr result, w2)
            | (Inl error, w2) \<Rightarrow>
                (let w3 = console_log (Attempt operationName (attempt + 1) error) w2 in
                 if attempt < maxRetries - 1
                 then executeWithPermanentConnection_loop operation operationName maxRetries
                        (attempt + 1) error (sleep (100 * (attempt + 1)) w3)
                 else executeWithPermanentConnection_loop operation operationName maxRetries
                        (attempt + 1) error w3)))"
  by (subst executeWithPermanentConnection_loop.simps) simp

lemmas run_defs = example_world_def blank_world_def new_pool_eq poolSize_def
  executeWithPermanentConnection_def default_maxRetries_def exec_loop_unfold exec_loop_done
  getSupabaseClient_def getClient_def Let_def request_def perform_def and_then_def
  throw_if_error_def data_only_def console_log_def sleep_def empty_database_def

section \<open>Saving a resume when no request fails\<close>


lemma and_then_Inr: "m w = (Inr a, w1) \<Longrightarrow> and_then m f w = f a w1"
  by (simp add: and_then_def)

lemma request_ok:
  "faults w = [] \<Longrightarrow>
   request (Some c) q w = (Inr (fst (q (backend w))), w\<lparr>backend := snd (q (backend w)), faults := []\<rparr>)"
  by (simp add: request_def perform_def split: prod.splits)

lemma checked_request_ok:
  "faults w = [] \<Longrightarrow> resp_error (fst (q (backend w))) = None \<Longrightarrow>
   throw_if_error (request (Some c) q w)
     = (Inr (resp_data (fst (q (backend w)))), w\<lparr>backend := snd (q (backend w)), faults := []\<rparr>)"
  by (simp add: request_ok throw_if_error_def)

lemma map_indexed_frame:
  assumes "\<And>i x w. faults (snd (f i x w)) = faults w \<and> backend (snd (f i x w)) = backend w
      \<and> connectionPool (snd (f i x w)) = connectionPool w"
  shows "faults (snd (map_indexed f i xs w)) = faults w
     \<and> backend (snd (map_indexed f i xs w)) = backend w
     \<and> connectionPool (snd (map_indexed f i xs w)) = connectionPool w"
proof (induction xs arbitrary: i w)
  case Nil
  show ?case by simp
next
  case (Cons x xs)
  obtain y w1 where f: "f i x w = (y, w1)" by (cases "f i x w")
  obtain ys w2 where m: "map_indexed f (Suc i) xs w1 = (ys, w2)"
    by (cases "map_indexed f (Suc i) xs w1")
  have a: "faults w1 = faults w \<and> backend w1 = backend w \<and> connectionPool w1 = connectionPool w"
    using assms[of i x w] f by simp
  have b: "faults w2 = faults w1 \<and> backend w2 = backend w1 \<and> connectionPool w2 = connectionPool w1"
    using Cons.IH[of "Suc i" w1] m by simp
  show ?case using a b by (simp add: f m)
qed

lemma map_indexed_map:
  assumes "\<And>i x w. g (fst (f i x w)) = x"
  shows "map g (fst (map_indexed f i xs w)) = xs"
proof (induction xs arbitrary: i w)
  case Nil
  show ?case by simp
next
  case (Cons x xs)
  obtain y w1 where f: "f i x w = (y, w1)" by (cases "f i x w")
  obtain ys w2 where m: "map_indexed f (Suc i) xs w1 = (ys, w2)"
    by (cases "map_indexed f (Suc i) xs w1")
  have a: "g y = x" using assms[of i x w] f by simp
  have b: "map g ys = xs" using Cons.IH[of "Suc i" w1] m by simp
  show ?case using a b by (simp add: f m)
qed

lemma map_indexed_index:
  assumes "\<And>i x w. k (fst (f i x w)) = i"
  shows "map k (fst (map_indexed f i xs w)) = [i ..< i + length xs]"
proof (induction xs arbitrary: i w)
  case Nil
  show ?case by simp
next
  case (Cons x xs)
  obtain y w1 where f: "f i x w = (y, w1)" by (cases "f i x w")
  obtain ys w2 where m: "map_indexed f (Suc i) xs w1 = (ys, w2)"
    by (cases "map_indexed f (Suc i) xs w1")
  have a: "k y = i" using assms[of i x w] f by simp
  have b: "map k ys = [Suc i ..< Suc i + length xs]" using Cons.IH[of "Suc i" w1] m by simp
  have u: "[i ..< i + length (x # xs)] = i # [Suc i ..< Suc i + length xs]"
    by (simp add: upt_conv_Cons del: upt_Suc)
  show ?case unfolding u using a b by (simp add: f m)
qed

lemma map_indexed_all:
  assumes "\<And>i x w. P (fst (f i x w))"
  shows "\<forall>y \<in> set (fst (map_indexed f i xs w)). P y"
proof (induction xs arbitrary: i w)
  case Nil
  show ?case by simp
next
  case (Cons x xs)
  obtain y w1 where f: "f i x w = (y, w1)" by (cases "f i x w")
  obtain ys w2 where m: "map_indexed f (Suc i) xs w1 = (ys, w2)"
    by (cases "map_indexed f (Suc i) xs w1")
  have a: "P y" using assms[of i x w] f by simp
  have b: "\<forall>y \<in> set ys. P y" using Cons.IH[of "Suc i" w1] m by simp
  show ?case using a b by (simp add: f m)
qed

lemma experience_rows_frame:
  "faults (snd (map_indexed (experience_row rid) i xs w)) = faults w
     \<and> backend (snd (map_indexed (experience_row rid) i xs w)) = backend w
     \<and> connectionPool (snd (map_indexed (experience_row rid) i xs w)) = connectionPool w"
  by (rule map_indexed_frame) (simp add: experience_row_def uuidv4_def)

lemma experience_rows_entries:
  "map Experience_of_row (fst (map_indexed (experience_row rid) i xs w)) = xs"
  by (rule map_indexed_map) (simp add: experience_row_def uuidv4_def Experience_of_row_def)

lemma experience_rows_index:
  "map exprow_order_index (fst (map_indexed (experience_row rid) i xs w)) = [i ..< i + length xs]"
  by (rule map_indexed_index) (simp add: experience_row_def uuidv4_def)

lemma experience_rows_resume_id:
  "\<forall>r \<in> set (fst (map_indexed (experience_row rid) i xs w)). exprow_resume_id r = rid"
  by (rule map_indexed_all) (simp add: experience_row_def uuidv4_def)

text \<open>What the block leaves in the table.\<close>

lemma handle_experience_records_ok:
  assumes nf: "faults w = []"
  shows "\<exists>w' rows. handle_experience_records (Some c) rid xs w = (Inr (), w')
     \<and> faults w' = [] \<and> connectionPool w' = connectionPool w
     \<and> resumes (backend w') = resumes (backend w)
     \<and> resume_education (backend w') = resume_education (backend w)
     \<and> resume_certifications (backend w') = resume_certifications (backend w)
     \<and> resume_experiences (backend w') =
          (if xs = [] then resume_experiences (backend w)
           else filter (\<lambda>r. exprow_resume_id r \<noteq> rid) (resume_experiences (backend w)) @ rows)
     \<and> map Experience_of_row rows = xs
     \<and> map exprow_order_index rows = [0 ..< length xs]
     \<and> (\<forall>r \<in> set rows. exprow_resume_id r = rid)"
proof (cases "xs = []")
  case True
  then show ?thesis
    using nf by (intro exI[of _ w] exI[of _ "[]"]) (simp add: handle_experience_records_def)
next
  case False
  let ?w1 = "w\<lparr>backend := snd (delete_experiences rid (backend w)), faults := []\<rparr>"
  obtain rows w2 where m: "map_indexed (experience_row rid) 0 xs ?w1 = (rows, w2)"
    by (cases "map_indexed (experience_row rid) 0 xs ?w1")
  let ?w3 = "w2\<lparr>backend := snd (insert_experiences rows (backend w2)), faults := []\<rparr>"
  have d: "throw_if_error (request (Some c) (delete_experiences rid) w) = (Inr None, ?w1)"
    using checked_request_ok[OF nf, of "delete_experiences rid" c]
    by (simp add: delete_experiences_def)
  have f2: "faults w2 = []" "backend w2 = backend ?w1" "connectionPool w2 = connectionPool ?w1"
    using experience_rows_frame[of rid 0 xs ?w1] m by simp_all
  have i: "throw_if_error (request (Some c) (insert_experiences rows) w2) = (Inr None, ?w3)"
    using checked_request_ok[OF f2(1), of "insert_experiences rows" c]
    by (simp add: insert_experiences_def)
  have run: "handle_experience_records (Some c) rid xs w = (Inr (), ?w3)"
    unfolding handle_experience_records_def and_then_def using False
    by (simp only: d m i if_True prod.case sum.case not_False_eq_True)
  have tab: "resume_experiences (backend ?w3) =
      filter (\<lambda>r. exprow_resume_id r \<noteq> rid) (resume_experiences (backend w)) @ rows"
    by (simp add: f2 insert_experiences_def delete_experiences_def)
  have others: "resumes (backend ?w3) = resumes (backend w)"
    "resume_education (backend ?w3) = resume_education (backend w)"
    "resume_certifications (backend ?w3) = resume_certifications (backend w)"
    "faults ?w3 = []" "connectionPool ?w3 = connectionPool w"
    by (simp_all add: f2 insert_experiences_def delete_experiences_def)
  have p: "map Experience_of_row rows = xs" "map exprow_order_index rows = [0 ..< length xs]"
    "\<forall>r \<in> set rows. exprow_resume_id r = rid"
    using experience_rows_entries[of rid 0 xs ?w1]
      experience_rows_index[of rid 0 xs ?w1] experience_rows_resume_id[of rid 0 xs ?w1] m
    by simp_all
  show ?thesis
    using False run tab others p by (intro exI[of _ ?w3] exI[of _ rows]) simp
qed

lemma education_rows_frame:
  "faults (snd (map_indexed (education_row rid) i xs w)) = faults w
     \<and> backend (snd (map_indexed (education_row rid) i xs w)) = backend w
     \<and> connectionPool (snd (map_indexed (education_row rid) i xs w)) = connectionPool w"
  by (rule map_indexed_frame) (simp add: education_row_def uuidv4_def)

lemma education_rows_entries:
  "map Education_of_row (fst (map_indexed (education_row rid) i xs w)) = xs"
  by (rule map_indexed_map) (simp add: education_row_def uuidv4_def Education_of_row_def)

lemma education_rows_index:
  "map edurow_order_index (fst (map_indexed (education_row rid) i xs w)) = [i ..< i + length xs]"
  by (rule map_indexed_index) (simp add: education_row_def uuidv4_def)

lemma education_rows_resume_id:
  "\<forall>r \<in> set (fst (map_indexed (education_row rid) i xs w)). edurow_resume_id r = rid"
  by (rule map_indexed_all) (simp add: education_row_def uuidv4_def)

lemma handle_education_records_ok:
  assumes nf: "faults w = []"
  shows "\<exists>w' rows. handle_education_records (Some c) rid xs w = (Inr (), w')
     \<and> faults w' = [] \<and> connectionPool w' = connectionPool w
     \<and> resumes (backend w') = resumes (backend w)
     \<and> resume_experiences (backend w') = resume_experiences (backend w)
     \<and> resume_certifications (backend w') = resume_certifications (backend w)
     \<and> resume_education (backend w') =
          (if xs = [] then resume_education (backend w)
           else filter (\<lambda>r. edurow_resume_id r \<noteq> rid) (resume_education (backend w)) @ rows)
     \<and> map Education_of_row rows = xs
     \<and> map edurow_order_index rows = [0 ..< length xs]
     \<and> (\<forall>r \<in> set rows. edurow_resume_id r = rid)"
proof (cases "xs = []")
  case True
  then show ?thesis
    using nf by (intro exI[of _ w] exI[of _ "[]"]) (simp add: handle_education_records_def)
next
  case False
  let ?w1 = "w\<lparr>backend := snd (delete_education rid (backend w)), faults := []\<rparr>"
  obtain rows w2 where m: "map_indexed (education_row rid) 0 xs ?w1 = (rows, w2)"
    by (cases "map_indexed (education_row rid) 0 xs ?w1")
  let ?w3 = "w2\<lparr>backend := snd (insert_education rows (backend w2)), faults := []\<rparr>"
  have d: "throw_if_error (request (Some c) (delete_education rid) w) = (Inr None, ?w1)"
    using checked_request_ok[OF nf, of "delete_education rid" c]
    by (simp add: delete_education_def)
  have f2: "faults w2 = []" "backend w2 = backend ?w1" "connectionPool w2 = connectionPool ?w1"
    using education_rows_frame[of rid 0 xs ?w1] m by simp_all
  have i: "throw_if_error (request (Some c) (insert_education rows) w2) = (Inr None, ?w3)"
    using checked_request_ok[OF f2(1), of "insert_education rows" c]
    by (simp add: insert_education_def)
  have run: "handle_education_records (Some c) rid xs w = (Inr (), ?w3)"
    unfolding handle_education_records_def and_then_def using False
    by (simp only: d m i if_True prod.case sum.case not_False_eq_True)
  have tab: "resume_education (backend ?w3) =
      filter (\<lambda>r. edurow_resume_id r \<noteq> rid) (resume_education (backend w)) @ rows"
    by (simp add: f2 insert_education_def delete_education_def)
  have others: "resumes (backend ?w3) = resumes (backend w)"
    "resume_experiences (backend ?w3) = resume_experiences (backend w)"
    "resume_certifications (backend ?w3) = resume_certifications (backend w)"
    "faults ?w3 = []" "connectionPool ?w3 = connectionPool w"
    by (simp_all add: f2 insert_education_def delete_education_def)
  have p: "map Education_of_row rows = xs" "map edurow_order_index rows = [0 ..< length xs]"
    "\<forall>r \<in> set rows. edurow_resume_id r = rid"
    using education_rows_entries[of rid 0 xs ?w1]
      education_rows_index[of rid 0 xs ?w1] education_rows_resume_id[of rid 0 xs ?w1] m
    by simp_all
  show ?thesis
    using False run tab others p by (intro exI[of _ ?w3] exI[of _ rows]) simp
qed

lemma certification_rows_frame:
  "faults (snd (map_indexed (certification_row rid) i xs w)) = faults w
     \<and> backend (snd (map_indexed (certification_row rid) i xs w)) = backend w
     \<and> connectionPool (snd (map_indexed (certification_row rid) i xs w)) = connectionPool w"
  by (rule map_indexed_frame) (simp add: certification_row_def uuidv4_def)

lemma certification_rows_entries:
  "map Certification_of_row (fst (map_indexed (certification_row rid) i xs w)) = xs"
  by (rule map_indexed_map) (simp add: certification_row_def uuidv4_def Certification_of_row_def)

lemma certification_rows_index:
  "map certrow_order_index (fst (map_indexed (certification_row rid) i xs w)) = [i ..< i + length xs]"
  by (rule map_indexed_index) (simp add: certification_row_def uuidv4_def)

lemma certification_rows_resume_id:
  "\<forall>r \<in> set (fst (map_indexed (certification_row rid) i xs w)). certrow_resume_id r = rid"
  by (rule map_indexed_all) (simp add: certification_row_def uuidv4_def)

lemma handle_certification_records_ok:
  assumes nf: "faults w = []"
  shows "\<exists>w' rows. handle_certification_records (Some c) rid xs w = (Inr (), w')
     \<and> faults w' = [] \<and> connectionPool w' = connectionPool w
     \<and> resumes (backend w') = resumes (backend w)
     \<and> resume_education (backend w') = resume_education (backend w)
     \<and> resume_experiences (backend w') = resume_experiences (backend w)
     \<and> resume_certifications (backend w') =
          (if xs = [] then resume_certifications (backend w)
           else filter (\<lambda>r. certrow_resume_id r \<noteq> rid) (resume_certifications (backend w)) @ rows)
     \<and> map Certification_of_row rows = xs
     \<and> map certrow_order_index rows = [0 ..< length xs]
     \<and> (\<forall>r \<in> set rows. certrow_resume_id r = rid)"
proof (cases "xs = []")
  case True
  then show ?thesis
    using nf by (intro exI[of _ w] exI[of _ "[]"]) (simp add: handle_certification_records_def)
next
  case False
  let ?w1 = "w\<lparr>backend := snd (delete_certifications rid (backend w)), faults := []\<rparr>"
  obtain rows w2 where m: "map_indexed (certification_row rid) 0 xs ?w1 = (rows, w2)"
    by (cases "map_indexed (certification_row rid) 0 xs ?w1")
  let ?w3 = "w2\<lparr>backend := snd (insert_certifications rows (backend w2)), faults := []\<rparr>"
  have d: "throw_if_error (request (Some c) (delete_certifications rid) w) = (Inr None, ?w1)"
    using checked_request_ok[OF nf, of "delete_certifications rid" c]
    by (simp add: delete_certifications_def)
  have f2: "faults w2 = []" "backend w2 = backend ?w1" "connectionPool w2 = connectionPool ?w1"
    using certification_rows_frame[of rid 0 xs ?w1] m by simp_all
  have i: "throw_if_error (request (Some c) (insert_certifications rows) w2) = (Inr None, ?w3)"
    using checked_request_ok[OF f2(1), of "insert_certifications rows" c]
    by (simp add: insert_certifications_def)
  have run: "handle_certification_records (Some c) rid xs w = (Inr (), ?w3)"
    unfolding handle_certification_records_def and_then_def using False
    by (simp only: d m i if_True prod.case sum.case not_False_eq_True)
  have tab: "resume_certifications (backend ?w3) =
      filter (\<lambda>r. certrow_resume_id r \<noteq> rid) (resume_certifications (backend w)) @ rows"
    by (simp add: f2 insert_certifications_def delete_certifications_def)
  have others: "resumes (backend ?w3) = resumes (backend w)"
    "resume_education (backend ?w3) = resume_education (backend w)"
    "resume_experiences (backend ?w3) = resume_experiences (backend w)"
    "faults ?w3 = []" "connectionPool ?w3 = connectionPool w"
    by (simp_all add: f2 insert_certifications_def delete_certifications_def)
  have p: "map Certification_of_row rows = xs" "map certrow_order_index rows = [0 ..< length xs]"
    "\<forall>r \<in> set rows. certrow_resume_id r = rid"
    using certification_rows_entries[of rid 0 xs ?w1]
      certification_rows_index[of rid 0 xs ?w1] certification_rows_resume_id[of rid 0 xs ?w1] m
    by simp_all
  show ?thesis
    using False run tab others p by (intro exI[of _ ?w3] exI[of _ rows]) simp
qed


lemma handle_experience_records_replaced:
  assumes nf: "faults w = []"
  shows "\<exists>w'. handle_experience_records (Some c) rid xs w = (Inr (), w')
     \<and> faults w' = [] \<and> connectionPool w' = connectionPool w
     \<and> resumes (backend w') = resumes (backend w)
     \<and> resume_education (backend w') = resume_education (backend w)
     \<and> resume_certifications (backend w') = resume_certifications (backend w)
     \<and> replaced_by exprow_resume_id exprow_order_index Experience_of_row rid xs
          (resume_experiences (backend w)) (resume_experiences (backend w'))"
proof -
  from handle_experience_records_ok[OF nf, of c rid xs] obtain w' rows where
    h: "handle_experience_records (Some c) rid xs w = (Inr (), w')"
      "faults w' = []" "connectionPool w' = connectionPool w"
      "resumes (backend w') = resumes (backend w)"
      "resume_education (backend w') = resume_education (backend w)"
      "resume_certifications (backend w') = resume_certifications (backend w)"
      "resume_experiences (backend w') =
          (if xs = [] then resume_experiences (backend w)
           else filter (\<lambda>r. exprow_resume_id r \<noteq> rid) (resume_experiences (backend w)) @ rows)"
      "map Experience_of_row rows = xs"
      "map exprow_order_index rows = [0 ..< length xs]"
      "\<forall>r \<in> set rows. exprow_resume_id r = rid"
    by blast
  have "replaced_by exprow_resume_id exprow_order_index Experience_of_row rid xs
          (resume_experiences (backend w)) (resume_experiences (backend w'))"
    unfolding replaced_by_def using h(7-10) by blast
  with h(1-6) show ?thesis by blast
qed

lemma handle_education_records_replaced:
  assumes nf: "faults w = []"
  shows "\<exists>w'. handle_education_records (Some c) rid xs w = (Inr (), w')
     \<and> faults w' = [] \<and> connectionPool w' = connectionPool w
     \<and> resumes (backend w') = resumes (backend w)
     \<and> resume_experiences (backend w') = resume_experiences (backend w)
     \<and> resume_certifications (backend w') = resume_certifications (backend w)
     \<and> replaced_by edurow_resume_id edurow_order_index Education_of_row rid xs
          (resume_education (backend w)) (resume_education (backend w'))"
proof -
  from handle_education_records_ok[OF nf, of c rid xs] obtain w' rows where
    h: "handle_education_records (Some c) rid xs w = (Inr (), w')"
      "faults w' = []" "connectionPool w' = connectionPool w"
      "resumes (backend w') = resumes (backend w)"
      "resume_experiences (backend w') = resume_experiences (backend w)"
      "resume_certifications (backend w') = resume_certifications (backend w)"
      "resume_education (backend w') =
          (if xs = [] then resume_education (backend w)
           else filter (\<lambda>r. edurow_resume_id r \<noteq> rid) (resume_education (backend w)) @ rows)"
      "map Education_of_row rows = xs"
      "map edurow_order_index rows = [0 ..< length xs]"
      "\<forall>r \<in> set rows. edurow_resume_id r = rid"
    by blast
  have "replaced_by edurow_resume_id edurow_order_index Education_of_row rid xs
          (resume_education (backend w)) (resume_education (backend w'))"
    unfolding replaced_by_def using h(7-10) by blast
  with h(1-6) show ?thesis by blast
qed

lemma handle_certification_records_replaced:
  assumes nf: "faults w = []"
  shows "\<exists>w'. handle_certification_records (Some c) rid xs w = (Inr (), w')
     \<and> faults w' = [] \<and> connectionPool w' = connectionPool w
     \<and> resumes (backend w') = resumes (backend w)
     \<and> resume_experiences (backend w') = resume_experiences (backend w)
     \<and> resume_education (backend w') = resume_education (backend w)
     \<and> replaced_by certrow_resume_id certrow_order_index Certification_of_row rid xs
          (resume_certifications (backend w)) (resume_certifications (backend w'))"
proof -
  from handle_certification_records_ok[OF nf, of c rid xs] obtain w' rows where
    h: "handle_certification_records (Some c) rid xs w = (Inr (), w')"
      "faults w' = []" "connectionPool w' = connectionPool w"
      "resumes (backend w') = resumes (backend w)"
      "resume_experiences (backend w') = resume_experiences (backend w)"
      "resume_education (backend w') = resume_education (backend w)"
      "resume_certifications (backend w') =
          (if xs = [] then resume_certifications (backend w)
           else filter (\<lambda>r. certrow_resume_id r \<noteq> rid) (resume_certifications (backend w)) @ rows)"
      "map Certification_of_row rows = xs"
      "map certrow_order_index rows = [0 ..< length xs]"
      "\<forall>r \<in> set rows. certrow_resume_id r = rid"
    by blast
  have "replaced_by certrow_resume_id certrow_order_index Certification_of_row rid xs
          (resume_certifications (backend w)) (resume_certifications (backend w'))"
    unfolding replaced_by_def using h(7-10) by blast
  with h(1-6) show ?thesis by blast
qed

lemma upsert_resume_children:
  "resume_experiences (snd (upsert_resume row db)) = resume_experiences db"
  "resume_education (snd (upsert_resume row db)) = resume_education db"
  "resume_certifications (snd (upsert_resume row db)) = resume_certifications db"
  by (simp_all add: upsert_resume_def)

lemma saveResume_operation_ok:
  assumes nf: "faults w = []" and pi: "pool_inv w"
  shows "\<exists>w'. saveResume_operation resume (Some c) w = (Inr (resolved_id resume w), w')
      \<and> saved resume w w'"
proof -
  let ?rid = "resolved_id resume w"
  obtain w0 where id: "(if r_id resume \<noteq> [] then (r_id resume, w) else uuidv4 w) = (?rid, w0)"
    and w0: "faults w0 = []" "backend w0 = backend w" "connectionPool w0 = connectionPool w"
      "clock w0 = clock w"
    using nf by (cases "r_id resume = []") (simp_all add: resolved_id_def uuidv4_def)
  let ?row = "resumeData_of ?rid resume (clock w)"
  let ?w1 = "w0\<lparr>backend := snd (upsert_resume ?row (backend w0)), faults := []\<rparr>"
  have u: "throw_if_error (request (Some c) (upsert_resume (resumeData_of ?rid resume (clock w0))) w0)
      = (Inr None, ?w1)"
    using checked_request_ok[OF w0(1), of "upsert_resume ?row" c]
    by (simp add: upsert_resume_def w0)
  have f1: "faults ?w1 = []" by simp
  from handle_experience_records_replaced[OF f1, of c ?rid "r_experience resume"]
  obtain w2 where e: "handle_experience_records (Some c) ?rid (r_experience resume) ?w1 = (Inr (), w2)"
    "faults w2 = []" "connectionPool w2 = connectionPool ?w1"
    "resumes (backend w2) = resumes (backend ?w1)"
    "resume_education (backend w2) = resume_education (backend ?w1)"
    "resume_certifications (backend w2) = resume_certifications (backend ?w1)"
    "replaced_by exprow_resume_id exprow_order_index Experience_of_row ?rid (r_experience resume)
          (resume_experiences (backend ?w1)) (resume_experiences (backend w2))"
    by blast
  from handle_education_records_replaced[OF e(2), of c ?rid "r_education resume"]
  obtain w3 where d: "handle_education_records (Some c) ?rid (r_education resume) w2 = (Inr (), w3)"
    "faults w3 = []" "connectionPool w3 = connectionPool w2"
    "resumes (backend w3) = resumes (backend w2)"
    "resume_experiences (backend w3) = resume_experiences (backend w2)"
    "resume_certifications (backend w3) = resume_certifications (backend w2)"
    "replaced_by edurow_resume_id edurow_order_index Education_of_row ?rid (r_education resume)
          (resume_education (backend w2)) (resume_education (backend w3))"
    by blast
  from handle_certification_records_replaced[OF d(2), of c ?rid "r_certifications resume"]
  obtain w4 where k: "handle_certification_records (Some c) ?rid (r_certifications resume) w3 = (Inr (), w4)"
    "faults w4 = []" "connectionPool w4 = connectionPool w3"
    "resumes (backend w4) = resumes (backend w3)"
    "resume_experiences (backend w4) = resume_experiences (backend w3)"
    "resume_education (backend w4) = resume_education (backend w3)"
    "replaced_by certrow_resume_id certrow_order_index Certification_of_row ?rid
          (r_certifications resume)
          (resume_certifications (backend w3)) (resume_certifications (backend w4))"
    by blast
  have run: "saveResume_operation resume (Some c) w = (Inr ?rid, w4)"
    unfolding saveResume_operation_def and_then_def
    by (simp only: id u e(1) d(1) k(1) prod.case sum.case)
  have r0: "resumes (backend w4) = resumes (snd (upsert_resume ?row (backend w)))"
    by (simp add: k(4) d(4) e(4) w0)
  have rx: "replaced_by exprow_resume_id exprow_order_index Experience_of_row ?rid (r_experience resume)
          (resume_experiences (backend w)) (resume_experiences (backend w4))"
    using e(7) by (simp add: k(5) d(5) upsert_resume_children w0)
  have rd: "replaced_by edurow_resume_id edurow_order_index Education_of_row ?rid (r_education resume)
          (resume_education (backend w)) (resume_education (backend w4))"
    using d(7) by (simp add: k(6) e(5) upsert_resume_children w0)
  have rc: "replaced_by certrow_resume_id certrow_order_index Certification_of_row ?rid
          (r_certifications resume)
          (resume_certifications (backend w)) (resume_certifications (backend w4))"
    using k(7) by (simp add: d(6) e(6) upsert_resume_children w0)
  have pool: "pool_inv w4"
    using pi by (simp add: pool_inv_def k(3) d(3) e(3) w0)
  have "saved resume w w4"
    unfolding saved_def using k(2) pool r0 rx rd rc by simp
  with run show ?thesis by blast
qed

section \<open>Reading a resume back\<close>


lemma getSupabaseClient_ok:
  assumes "pool_inv w"
  shows "\<exists>c w1. getSupabaseClient w = (Some c, w1) \<and> pool_inv w1 \<and> faults w1 = faults w
     \<and> backend w1 = backend w \<and> uuid_source w1 = uuid_source w \<and> uuid_count w1 = uuid_count w
     \<and> clock w1 = clock w"
  using assms
  by (simp add: getSupabaseClient_def getClient_def Let_def pool_inv_def poolSize_def)

lemma saved_cong:
  "saved resume w1 w' \<Longrightarrow> backend w1 = backend w \<Longrightarrow> uuid_source w1 = uuid_source w
   \<Longrightarrow> uuid_count w1 = uuid_count w \<Longrightarrow> clock w1 = clock w \<Longrightarrow> saved resume w w'"
proof -
  assume a: "saved resume w1 w'" "backend w1 = backend w" "uuid_source w1 = uuid_source w"
    "uuid_count w1 = uuid_count w" "clock w1 = clock w"
  have r: "resolved_id resume w1 = resolved_id resume w"
    by (simp add: resolved_id_def a)
  show ?thesis using a(1) unfolding saved_def r a(2) a(5) .
qed

lemma saveResume_ok:
  assumes nf: "faults w = []" and pi: "pool_inv w"
  shows "\<exists>w'. saveResume resume w = (\<lparr>save_id = resolved_id resume w, save_error = None\<rparr>, w')
      \<and> saved resume w w'"
proof -
  from getSupabaseClient_ok[OF pi] obtain c w1 where
    g: "getSupabaseClient w = (Some c, w1)" "pool_inv w1" "faults w1 = faults w"
      "backend w1 = backend w" "uuid_source w1 = uuid_source w" "uuid_count w1 = uuid_count w"
      "clock w1 = clock w"
    by blast
  have nf1: "faults w1 = []" using g(3) nf by simp
  from saveResume_operation_ok[OF nf1 g(2), of resume c] obtain w' where
    o: "saveResume_operation resume (Some c) w1 = (Inr (resolved_id resume w1), w')"
      "saved resume w1 w'"
    by blast
  have rid: "resolved_id resume w1 = resolved_id resume w"
    by (simp add: resolved_id_def g)
  have ex: "executeWithPermanentConnection (saveResume_operation resume) ''saveResume''
      default_maxRetries w = (Inr (resolved_id resume w), w')"
    using exec_first_success[OF _ g(1), of default_maxRetries "saveResume_operation resume"
        "resolved_id resume w" w' "''saveResume''"] o(1)
    by (simp add: default_maxRetries_def rid)
  have s: "saved resume w w'"
    using saved_cong[OF o(2) g(4) g(5) g(6) g(7)] .
  show ?thesis using s by (simp add: saveResume_def ex)
qed

lemma getResume_operation_ok:
  assumes nf: "faults w = []"
    and one: "filter (\<lambda>r. row_id r = ident) (resumes (backend w)) = [rd]"
  shows "getResume_operation ident (Some c) w
     = (Inr (Resume_of_rows rd (experiences_of ident w) (education_of ident w)
               (certifications_of ident w)), w\<lparr>faults := []\<rparr>)"
proof -
  have w': "w\<lparr>backend := backend w, faults := []\<rparr> = w\<lparr>faults := []\<rparr>" by simp
  have a: "throw_if_error (request (Some c) (select_resume_single ident) w)
      = (Inr (Some rd), w\<lparr>faults := []\<rparr>)"
    using checked_request_ok[OF nf, of "select_resume_single ident" c] one
    by (simp add: select_resume_single_def)
  have nf': "faults (w\<lparr>faults := []\<rparr>) = []" by simp
  have b: "throw_if_error (request (Some c) (select_experiences ident) (w\<lparr>faults := []\<rparr>))
      = (Inr (Some (experiences_of ident w)), w\<lparr>faults := []\<rparr>)"
    using checked_request_ok[OF nf', of "select_experiences ident" c]
    by (simp add: select_experiences_def experiences_of_def)
  have d: "throw_if_error (request (Some c) (select_education ident) (w\<lparr>faults := []\<rparr>))
      = (Inr (Some (education_of ident w)), w\<lparr>faults := []\<rparr>)"
    using checked_request_ok[OF nf', of "select_education ident" c]
    by (simp add: select_education_def education_of_def)
  have k: "throw_if_error (request (Some c) (select_certifications ident) (w\<lparr>faults := []\<rparr>))
      = (Inr (Some (certifications_of ident w)), w\<lparr>faults := []\<rparr>)"
    using checked_request_ok[OF nf', of "select_certifications ident" c]
    by (simp add: select_certifications_def certifications_of_def)
  show ?thesis
    unfolding getResume_operation_def and_then_def
    by (simp only: a b d k prod.case sum.case option.case)
qed

lemma getResume_ok:
  assumes nf: "faults w = []" and pi: "pool_inv w"
    and one: "filter (\<lambda>r. row_id r = ident) (resumes (backend w)) = [rd]"
  shows "fst (getResume ident w)
     = \<lparr>get_resume = Some (Resume_of_rows rd (experiences_of ident w) (education_of ident w)
               (certifications_of ident w)), get_error = None\<rparr>"
proof -
  from getSupabaseClient_ok[OF pi] obtain c w1 where
    g: "getSupabaseClient w = (Some c, w1)" "pool_inv w1" "faults w1 = faults w"
      "backend w1 = backend w"
    by blast
  have nf1: "faults w1 = []" using g(3) nf by simp
  have one1: "filter (\<lambda>r. row_id r = ident) (resumes (backend w1)) = [rd]"
    using one g(4) by simp
  have same: "experiences_of ident w1 = experiences_of ident w"
    "education_of ident w1 = education_of ident w"
    "certifications_of ident w1 = certifications_of ident w"
    by (simp_all add: experiences_of_def education_of_def certifications_of_def g(4))
  have ex: "executeWithPermanentConnection (getResume_operation ident) ''getResume''
      default_maxRetries w
      = (Inr (Resume_of_rows rd (experiences_of ident w) (education_of ident w)
               (certifications_of ident w)), w1\<lparr>faults := []\<rparr>)"
    using exec_first_success[OF _ g(1), of default_maxRetries "getResume_operation ident" _ _
        "''getResume''"] getResume_operation_ok[OF nf1 one1, of c]
    by (simp add: default_maxRetries_def same)
  show ?thesis by (simp add: getResume_def ex)
qed

text \<open>Reading a child table that a save has replaced.\<close>

lemma replaced_by_read:
  assumes r: "replaced_by rid_of ord ent rid xs old new" and ne: "xs \<noteq> []"
  shows "map ent (filter (\<lambda>r. rid_of r = rid) new) = xs
     \<and> map ord (filter (\<lambda>r. rid_of r = rid) new) = [0 ..< length xs]
     \<and> sort_key ord (filter (\<lambda>r. rid_of r = rid) new) = filter (\<lambda>r. rid_of r = rid) new"
proof -
  from r ne obtain rows where
    h: "new = filter (\<lambda>r. rid_of r \<noteq> rid) old @ rows" "map ent rows = xs"
      "map ord rows = [0 ..< length xs]" "\<forall>r \<in> set rows. rid_of r = rid"
    unfolding replaced_by_def by auto
  have f1: "filter (\<lambda>r. rid_of r = rid) (filter (\<lambda>r. rid_of r \<noteq> rid) old) = []"
    by (induction old) simp_all
  have f2: "filter (\<lambda>r. rid_of r = rid) rows = rows"
    using h(4) by (simp add: filter_id_conv)
  have f: "filter (\<lambda>r. rid_of r = rid) new = rows"
    by (simp add: h(1) f1 f2)
  have s: "sorted (map ord rows)" by (simp add: h(3))
  show ?thesis
    using h(2) h(3) sort_key_id_if_sorted[OF s] by (simp add: f)
qed

lemma replaced_by_empty:
  "replaced_by rid_of ord ent rid [] old new \<Longrightarrow> new = old"
  by (auto simp add: replaced_by_def)

lemma upsert_single:
  "distinct (map row_id rs) \<Longrightarrow>
   filter (\<lambda>r. row_id r = row_id row)
     (if row_id row \<in> set (map row_id rs)
      then map (\<lambda>r. if row_id r = row_id row then row else r) rs
      else rs @ [row]) = [row]"
proof (induction rs)
  case Nil
  show ?case by simp
next
  case (Cons a rs)
  show ?case
  proof (cases "row_id a = row_id row")
    case True
    then have "row_id row \<notin> set (map row_id rs)" using Cons.prems by auto
    then have "filter (\<lambda>r. row_id r = row_id row) (map (\<lambda>r. if row_id r = row_id row then row else r) rs) = []"
      by (induction rs) auto
    with True show ?thesis by simp
  next
    case False
    then show ?thesis using Cons by (auto split: if_splits)
  qed
qed

lemma saved_parent:
  assumes "saved resume w w'" and "distinct (map row_id (resumes (backend w)))"
  shows "filter (\<lambda>r. row_id r = resolved_id resume w) (resumes (backend w'))
     = [resumeData_of (resolved_id resume w) resume (clock w)]"
proof -
  let ?row = "resumeData_of (resolved_id resume w) resume (clock w)"
  have i: "row_id ?row = resolved_id resume w" by (simp add: resumeData_of_def)
  show ?thesis
    using assms(1) upsert_single[OF assms(2), of ?row]
    by (simp add: saved_def upsert_resume_def i)
qed

text \<open>The identifiers of the parent table stay distinct under an upsert.\<close>

lemma replace_row_ids:
  "map row_id (map (\<lambda>r. if row_id r = row_id row then row else r) rs) = map row_id rs"
  by (induction rs) simp_all

lemma upsert_resume_distinct:
  assumes "distinct (map row_id (resumes db))"
  shows "distinct (map row_id (resumes (snd (upsert_resume row db))))"
proof (cases "row_id row \<in> set (map row_id (resumes db))")
  case True
  have "resumes (snd (upsert_resume row db))
      = map (\<lambda>r. if row_id r = row_id row then row else r) (resumes db)"
    using True by (simp add: upsert_resume_def)
  then show ?thesis using assms by (simp only: replace_row_ids)
next
  case False
  then show ?thesis using assms by (simp add: upsert_resume_def)
qed

lemma saved_distinct:
  "saved resume w w' \<Longrightarrow> distinct (map row_id (resumes (backend w)))
   \<Longrightarrow> distinct (map row_id (resumes (backend w')))"
  by (simp add: saved_def upsert_resume_distinct)

lemma saved_experiences_read:
  assumes "saved resume w w1"
  shows "map Experience_of_row (experiences_of (resolved_id resume w) w1)
     = (if r_experience resume \<noteq> [] then r_experience resume
        else map Experience_of_row (experiences_of (resolved_id resume w) w))"
proof (cases "r_experience resume = []")
  case True
  have "resume_experiences (backend w1) = resume_experiences (backend w)"
    using assms True replaced_by_empty[of exprow_resume_id exprow_order_index Experience_of_row
        "resolved_id resume w" "resume_experiences (backend w)" "resume_experiences (backend w1)"]
    by (simp add: saved_def)
  then show ?thesis using True by (simp add: experiences_of_def)
next
  case False
  have r: "replaced_by exprow_resume_id exprow_order_index Experience_of_row
      (resolved_id resume w) (r_experience resume)
      (resume_experiences (backend w)) (resume_experiences (backend w1))"
    using assms by (simp add: saved_def)
  show ?thesis
    using replaced_by_read[OF r False] False by (simp add: experiences_of_def)
qed

lemma saved_education_read:
  assumes "saved resume w w1"
  shows "map Education_of_row (education_of (resolved_id resume w) w1)
     = (if r_education resume \<noteq> [] then r_education resume
        else map Education_of_row (education_of (resolved_id resume w) w))"
proof (cases "r_education resume = []")
  case True
  have "resume_education (backend w1) = resume_education (backend w)"
    using assms True replaced_by_empty[of edurow_resume_id edurow_order_index Education_of_row
        "resolved_id resume w" "resume_education (backend w)" "resume_education (backend w1)"]
    by (simp add: saved_def)
  then show ?thesis using True by (simp add: education_of_def)
next
  case False
  have r: "replaced_by edurow_resume_id edurow_order_index Education_of_row
      (resolved_id resume w) (r_education resume)
      (resume_education (backend w)) (resume_education (backend w1))"
    using assms by (simp add: saved_def)
  show ?thesis
    using replaced_by_read[OF r False] False by (simp add: education_of_def)
qed

lemma saved_certifications_read:
  assumes "saved resume w w1"
  shows "map Certification_of_row (certifications_of (resolved_id resume w) w1)
     = (if r_certifications resume \<noteq> [] then r_certifications resume
        else map Certification_of_row (certifications_of (resolved_id resume w) w))"
proof (cases "r_certifications resume = []")
  case True
  have "resume_certifications (backend w1) = resume_certifications (backend w)"
    using assms True replaced_by_empty[of certrow_resume_id certrow_order_index
        Certification_of_row "resolved_id resume w" "resume_certifications (backend w)"
        "resume_certifications (backend w1)"]
    by (simp add: saved_def)
  then show ?thesis using True by (simp add: certifications_of_def)
next
  case False
  have r: "replaced_by certrow_resume_id certrow_order_index Certification_of_row
      (resolved_id resume w) (r_certifications resume)
      (resume_certifications (backend w)) (resume_certifications (backend w1))"
    using assms by (simp add: saved_def)
  show ?thesis
    using replaced_by_read[OF r False] False by (simp add: certifications_of_def)
qed

lemma save_then_get:
  assumes nf: "faults w = []" and pi: "pool_inv w"
    and di: "distinct (map row_id (resumes (backend w)))"
  shows "\<exists>w1. saveResume resume w = (\<lparr>save_id = resolved_id resume w, save_error = None\<rparr>, w1)
     \<and> saved resume w w1
     \<and> fst (getResume (resolved_id resume w) w1)
         = \<lparr>get_resume = Some (read_back resume w), get_error = None\<rparr>"
proof -
  let ?rid = "resolved_id resume w"
  from saveResume_ok[OF nf pi, of resume] obtain w1 where
    s: "saveResume resume w = (\<lparr>save_id = ?rid, save_error = None\<rparr>, w1)" "saved resume w w1"
    by blast
  have nf1: "faults w1 = []" and pi1: "pool_inv w1" using s(2) by (simp_all add: saved_def)
  have one: "filter (\<lambda>r. row_id r = ?rid) (resumes (backend w1))
      = [resumeData_of ?rid resume (clock w)]"
    using saved_parent[OF s(2) di] .
  have g: "fst (getResume ?rid w1)
     = \<lparr>get_resume = Some (Resume_of_rows (resumeData_of ?rid resume (clock w))
           (experiences_of ?rid w1) (education_of ?rid w1) (certifications_of ?rid w1)),
        get_error = None\<rparr>"
    using getResume_ok[OF nf1 pi1 one] .
  have r: "Resume_of_rows (resumeData_of ?rid resume (clock w))
           (experiences_of ?rid w1) (education_of ?rid w1) (certifications_of ?rid w1)
        = read_back resume w"
    unfolding Resume_of_rows_def read_back_def
    using saved_experiences_read[OF s(2)] saved_education_read[OF s(2)]
      saved_certifications_read[OF s(2)]
    by (simp add: resumeData_of_def)
  show ?thesis using s g r by simp
qed

section \<open>Round trip, replacement and order keys\<close>


text \<open>Facts for running the repository operations on the example worlds.\<close>

lemmas repo_defs = saveResume_def saveResume_operation_def handle_experience_records_def
  handle_education_records_def handle_certification_records_def uuidv4_def upsert_resume_def
  resumeData_of_def delete_experiences_def insert_experiences_def delete_education_def
  insert_education_def delete_certifications_def insert_certifications_def
  experience_row_def education_row_def certification_row_def getResume_def
  getResume_operation_def select_resume_single_def select_experiences_def select_education_def
  select_certifications_def Resume_of_rows_def Experience_of_row_def Education_of_row_def
  Certification_of_row_def example_resume_def

text \<open>
  Against C2 as stated: a resume is saved with two experience entries and then saved
  again, under the same identifier, with none. The two rows of the first save are still
  in the table.
\<close>

theorem second_save_with_empty_collection_keeps_rows:
  "map Experience_of_row
     (resume_experiences (backend (snd (saveResume (example_resume [] [] [])
        (snd (saveResume (example_resume [job_a, job_b] [] []) (example_world [])))))))
   = [job_a, job_b]
   \<and> map exprow_resume_id
     (resume_experiences (backend (snd (saveResume (example_resume [] [] [])
        (snd (saveResume (example_resume [job_a, job_b] [] []) (example_world [])))))))
   = [''r1'', ''r1'']
   \<and> save_id (fst (saveResume (example_resume [] [] [])
        (snd (saveResume (example_resume [job_a, job_b] [] []) (example_world []))))) = ''r1''
   \<and> r_experience (example_resume [] [] []) = []"
  by (simp add: run_defs repo_defs)

text \<open>
  Against C1 as stated: the store holds one experience row of resume \<open>r1\<close>, from an
  earlier save. The resume is saved with an empty experience list and read back: the
  aggregate read has the old entry, the record saved has none.
\<close>

theorem round_trip_fails_on_emptied_collection:
  "map_option r_experience
     (get_resume (fst (getResume
        (save_id (fst (saveResume (example_resume [] [] [])
           (snd (saveResume (example_resume [job_a] [] []) (example_world []))))))
        (snd (saveResume (example_resume [] [] [])
           (snd (saveResume (example_resume [job_a] [] []) (example_world []))))))))
   = Some [job_a]
   \<and> r_experience (example_resume [] [] []) = []"
  by (simp add: run_defs repo_defs)


lemma example_world_ok:
  "faults (example_world []) = []" "pool_inv (example_world [])"
  "distinct (map row_id (resumes (backend (example_world []))))"
  by (simp_all add: example_world_def blank_world_def new_pool_eq pool_inv_def poolSize_def
      empty_database_def)

text \<open>
  C1 (amended). When no request fails, the pool is as constructed and the identifiers
  of the parent table are distinct, \<open>saveResume\<close> returns the resolved identifier
  without an error, and \<open>getResume\<close> with that identifier returns an aggregate with that
  identifier, the scalar fields and skills of the record, and for each child collection:
  the collection of the record, in its order, when that collection is not empty; the
  entries the store already held under the identifier before the save, by order key, when
  it is empty. The aggregate equals the record (identifier apart) whenever every empty
  collection of the record had no rows in the store.
\<close>

theorem save_then_get_round_trip:
  assumes "faults w = []" and "pool_inv w" and "distinct (map row_id (resumes (backend w)))"
  shows "\<exists>rid w1 got.
       saveResume resume w = (\<lparr>save_id = rid, save_error = None\<rparr>, w1)
     \<and> rid = (if r_id resume \<noteq> [] then r_id resume else uuid_source w (uuid_count w))
     \<and> fst (getResume rid w1) = \<lparr>get_resume = Some got, get_error = None\<rparr>
     \<and> r_id got = rid
     \<and> r_name got = r_name resume
     \<and> r_email got = r_email resume
     \<and> r_phone got = r_phone resume
     \<and> r_location got = r_location resume
     \<and> r_linkedin got = r_linkedin resume
     \<and> r_website got = r_website resume
     \<and> r_summary got = r_summary resume
     \<and> r_skills got = r_skills resume
     \<and> r_experience got =
          (if r_experience resume \<noteq> [] then r_experience resume
           else map Experience_of_row (experiences_of rid w))
     \<and> r_education got =
          (if r_education resume \<noteq> [] then r_education resume
           else map Education_of_row (education_of rid w))
     \<and> r_certifications got =
          (if r_certifications resume \<noteq> [] then r_certifications resume
           else map Certification_of_row (certifications_of rid w))"
proof -
  from save_then_get[OF assms, of resume] obtain w1 where
    s: "saveResume resume w = (\<lparr>save_id = resolved_id resume w, save_error = None\<rparr>, w1)"
      "fst (getResume (resolved_id resume w) w1)
         = \<lparr>get_resume = Some (read_back resume w), get_error = None\<rparr>"
    by blast
  show ?thesis
    apply (intro exI[of _ "resolved_id resume w"] exI[of _ w1] exI[of _ "read_back resume w"])
    using s apply (simp add: read_back_def)
    apply (simp add: resolved_id_def)
    done
qed

theorem save_then_get_round_trip_witness:
  "faults (example_world []) = [] \<and> pool_inv (example_world [])
   \<and> distinct (map row_id (resumes (backend (example_world []))))
   \<and> (\<exists>w1 got.
         saveResume (example_resume [job_a, job_b] [school_a] []) (example_world [])
           = (\<lparr>save_id = ''r1'', save_error = None\<rparr>, w1)
       \<and> fst (getResume ''r1'' w1) = \<lparr>get_resume = Some got, get_error = None\<rparr>
       \<and> r_name got = ''Ada''
       \<and> r_skills got = [''ts'', ''sql'']
       \<and> r_experience got = [job_a, job_b]
       \<and> r_education got = [school_a]
       \<and> r_certifications got = [])"
proof -
  have c: "certifications_of ''r1'' (example_world []) = []"
    by (simp add: certifications_of_def run_defs)
  show ?thesis
    using save_then_get_round_trip[OF example_world_ok,
        of "example_resume [job_a, job_b] [school_a] []"] example_world_ok c
    by (auto simp add: example_resume_def)
qed

text \<open>
  C2 (amended). For two consecutive saves under one identifier, when no request fails:
  after the second save the stored rows of each child collection that is not empty in the
  second save are exactly the rows of that collection, in its order, with the order keys
  \<open>0..n-1\<close>, and nothing of the first save is left; the table of a child collection
  that is empty in the second save is left as the first save left it (the delete and the
  insert are both skipped).
\<close>

theorem second_save_replaces_nonempty:
  assumes "faults w = []" and "pool_inv w" and "r_id first \<noteq> []" and "r_id second = r_id first"
  shows "\<exists>w1 w2.
       saveResume first w = (\<lparr>save_id = r_id first, save_error = None\<rparr>, w1)
     \<and> saveResume second w1 = (\<lparr>save_id = r_id first, save_error = None\<rparr>, w2)
     \<and> (r_experience second \<noteq> [] \<longrightarrow>
          map Experience_of_row
            (filter (\<lambda>r. exprow_resume_id r = r_id first) (resume_experiences (backend w2)))
            = r_experience second
          \<and> map exprow_order_index
            (filter (\<lambda>r. exprow_resume_id r = r_id first) (resume_experiences (backend w2)))
            = [0 ..< length (r_experience second)])
     \<and> (r_experience second = [] \<longrightarrow>
          resume_experiences (backend w2) = resume_experiences (backend w1))
     \<and> (r_education second \<noteq> [] \<longrightarrow>
          map Education_of_row
            (filter (\<lambda>r. edurow_resume_id r = r_id first) (resume_education (backend w2)))
            = r_education second
          \<and> map edurow_order_index
            (filter (\<lambda>r. edurow_resume_id r = r_id first) (resume_education (backend w2)))
            = [0 ..< length (r_education second)])
     \<and> (r_education second = [] \<longrightarrow>
          resume_education (backend w2) = resume_education (backend w1))
     \<and> (r_certifications second \<noteq> [] \<longrightarrow>
          map Certification_of_row
            (filter (\<lambda>r. certrow_resume_id r = r_id first) (resume_certifications (backend w2)))
            = r_certifications second
          \<and> map certrow_order_index
            (filter (\<lambda>r. certrow_resume_id r = r_id first) (resume_certifications (backend w2)))
            = [0 ..< length (r_certifications second)])
     \<and> (r_certifications second = [] \<longrightarrow>
          resume_certifications (backend w2) = resume_certifications (backend w1))"
proof -
  let ?rid = "r_id first"
  from saveResume_ok[OF assms(1) assms(2), of first] obtain w1 where
    s1: "saveResume first w = (\<lparr>save_id = resolved_id first w, save_error = None\<rparr>, w1)"
      "saved first w w1"
    by blast
  have nf1: "faults w1 = []" and pi1: "pool_inv w1" using s1(2) by (simp_all add: saved_def)
  from saveResume_ok[OF nf1 pi1, of second] obtain w2 where
    s2: "saveResume second w1 = (\<lparr>save_id = resolved_id second w1, save_error = None\<rparr>, w2)"
      "saved second w1 w2"
    by blast
  have r1: "resolved_id first w = ?rid" using assms(3) by (simp add: resolved_id_def)
  have r2: "resolved_id second w1 = ?rid" using assms(3) assms(4) by (simp add: resolved_id_def)
  have rx: "replaced_by exprow_resume_id exprow_order_index Experience_of_row ?rid
      (r_experience second) (resume_experiences (backend w1)) (resume_experiences (backend w2))"
    and rd: "replaced_by edurow_resume_id edurow_order_index Education_of_row ?rid
      (r_education second) (resume_education (backend w1)) (resume_education (backend w2))"
    and rc: "replaced_by certrow_resume_id certrow_order_index Certification_of_row ?rid
      (r_certifications second) (resume_certifications (backend w1))
      (resume_certifications (backend w2))"
    using s2(2) by (simp_all add: saved_def r2)
  have x1: "r_experience second \<noteq> [] \<longrightarrow>
          map Experience_of_row
            (filter (\<lambda>r. exprow_resume_id r = ?rid) (resume_experiences (backend w2)))
            = r_experience second
          \<and> map exprow_order_index
            (filter (\<lambda>r. exprow_resume_id r = ?rid) (resume_experiences (backend w2)))
            = [0 ..< length (r_experience second)]"
    using replaced_by_read[OF rx] by simp
  have x2: "r_experience second = [] \<longrightarrow>
          resume_experiences (backend w2) = resume_experiences (backend w1)"
    using rx replaced_by_empty[of exprow_resume_id exprow_order_index Experience_of_row ?rid
        "resume_experiences (backend w1)" "resume_experiences (backend w2)"] by auto
  have d1: "r_education second \<noteq> [] \<longrightarrow>
          map Education_of_row
            (filter (\<lambda>r. edurow_resume_id r = ?rid) (resume_education (backend w2)))
            = r_education second
          \<and> map edurow_order_index
            (filter (\<lambda>r. edurow_resume_id r = ?rid) (resume_education (backend w2)))
            = [0 ..< length (r_education second)]"
    using replaced_by_read[OF rd] by simp
  have d2: "r_education second = [] \<longrightarrow>
          resume_education (backend w2) = resume_education (backend w1)"
    using rd replaced_by_empty[of edurow_resume_id edurow_order_index Education_of_row ?rid
        "resume_education (backend w1)" "resume_education (backend w2)"] by auto
  have c1: "r_certifications second \<noteq> [] \<longrightarrow>
          map Certification_of_row
            (filter (\<lambda>r. certrow_resume_id r = ?rid) (resume_certifications (backend w2)))
            = r_certifications second
          \<and> map certrow_order_index
            (filter (\<lambda>r. certrow_resume_id r = ?rid) (resume_certifications (backend w2)))
            = [0 ..< length (r_certifications second)]"
    using replaced_by_read[OF rc] by simp
  have c2: "r_certifications second = [] \<longrightarrow>
          resume_certifications (backend w2) = resume_certifications (backend w1)"
    using rc replaced_by_empty[of certrow_resume_id certrow_order_index Certification_of_row ?rid
        "resume_certifications (backend w1)" "resume_certifications (backend w2)"] by auto
  have a: "saveResume first w = (\<lparr>save_id = ?rid, save_error = None\<rparr>, w1)"
    using s1(1) r1 by simp
  have b: "saveResume second w1 = (\<lparr>save_id = ?rid, save_error = None\<rparr>, w2)"
    using s2(1) r2 by simp
  show ?thesis
    using a b x1 x2 d1 d2 c1 c2 by blast
qed


theorem second_save_replaces_nonempty_witness:
  "faults (example_world []) = [] \<and> pool_inv (example_world [])
   \<and> r_id (example_resume [job_a, job_b] [school_a] [cert_a]) \<noteq> []
   \<and> r_id (example_resume [job_b] [] [cert_a]) = r_id (example_resume [job_a, job_b] [school_a] [cert_a])
   \<and> (\<exists>w1 w2.
         saveResume (example_resume [job_a, job_b] [school_a] [cert_a]) (example_world [])
           = (\<lparr>save_id = ''r1'', save_error = None\<rparr>, w1)
       \<and> saveResume (example_resume [job_b] [] [cert_a]) w1
           = (\<lparr>save_id = ''r1'', save_error = None\<rparr>, w2)
       \<and> map Experience_of_row
            (filter (\<lambda>r. exprow_resume_id r = ''r1'') (resume_experiences (backend w2)))
            = [job_b]
       \<and> map exprow_order_index
            (filter (\<lambda>r. exprow_resume_id r = ''r1'') (resume_experiences (backend w2)))
            = [0]
       \<and> resume_education (backend w2) = resume_education (backend w1)
       \<and> map Certification_of_row
            (filter (\<lambda>r. certrow_resume_id r = ''r1'') (resume_certifications (backend w2)))
            = [cert_a])"
proof -
  have i: "r_id (example_resume [job_a, job_b] [school_a] [cert_a]) \<noteq> []"
    "r_id (example_resume [job_b] [] [cert_a]) = r_id (example_resume [job_a, job_b] [school_a] [cert_a])"
    by (simp_all add: example_resume_def)
  show ?thesis
    using second_save_replaces_nonempty[OF example_world_ok(1) example_world_ok(2) i]
      example_world_ok
    by (auto simp add: example_resume_def)
qed

lemma shuffled_world_ok:
  "faults shuffled_world = []" "pool_inv shuffled_world"
  "filter (\<lambda>r. row_id r = ''r1'') (resumes (backend shuffled_world))
     = [resumeData_of ''r1'' (example_resume [] [] []) 7]"
  by (simp_all add: shuffled_world_def shuffled_database_def pool_inv_def run_defs
      resumeData_of_def example_resume_def)

lemma shuffled_world_reads:
  "map Experience_of_row (sort_key exprow_order_index
     (filter (\<lambda>r. exprow_resume_id r = ''r1'') (resume_experiences (backend shuffled_world))))
     = [job_a, job_b]"
  "map Education_of_row (sort_key edurow_order_index
     (filter (\<lambda>r. edurow_resume_id r = ''r1'') (resume_education (backend shuffled_world))))
     = [school_a]"
  "map Certification_of_row (sort_key certrow_order_index
     (filter (\<lambda>r. certrow_resume_id r = ''r1'') (resume_certifications (backend shuffled_world))))
     = [cert_a, cert_b]"
  "map Experience_of_row
     (filter (\<lambda>r. exprow_resume_id r = ''r1'') (resume_experiences (backend shuffled_world)))
     = [job_b, job_a]"
  by (simp_all add: shuffled_world_def shuffled_database_def experience_row_def education_row_def
      certification_row_def uuidv4_def Experience_of_row_def Education_of_row_def
      Certification_of_row_def job_a_def job_b_def school_a_def cert_a_def cert_b_def)

text \<open>
  C4. The rows \<open>saveResume\<close> builds for a child collection of length \<open>n\<close> carry the
  order keys \<open>0..n-1\<close> in the order of the collection, entry by entry. After a save in
  which no request fails, the stored rows of the saved identifier, in storage order, have
  these keys and these entries, for each collection that is not empty. \<open>getResume\<close>
  reads each child collection back by order key, ascending: the experience, education and
  certification entries of the aggregate are the entries of the rows of the identifier
  sorted by the order key, whatever their storage order, each entry with the fields of
  its row.
\<close>

theorem order_keys_dense:
  "map exprow_order_index (fst (map_indexed (experience_row rid) 0 es w0)) = [0 ..< length es]
   \<and> map Experience_of_row (fst (map_indexed (experience_row rid) 0 es w0)) = es
   \<and> map edurow_order_index (fst (map_indexed (education_row rid) 0 ds w0)) = [0 ..< length ds]
   \<and> map Education_of_row (fst (map_indexed (education_row rid) 0 ds w0)) = ds
   \<and> map certrow_order_index (fst (map_indexed (certification_row rid) 0 cs w0)) = [0 ..< length cs]
   \<and> map Certification_of_row (fst (map_indexed (certification_row rid) 0 cs w0)) = cs
   \<and> (faults w = [] \<and> pool_inv w \<longrightarrow>
        (\<exists>saved_id w1.
           saveResume resume w = (\<lparr>save_id = saved_id, save_error = None\<rparr>, w1)
         \<and> (r_experience resume \<noteq> [] \<longrightarrow>
              map exprow_order_index
                (filter (\<lambda>r. exprow_resume_id r = saved_id) (resume_experiences (backend w1)))
                = [0 ..< length (r_experience resume)]
              \<and> map Experience_of_row
                (filter (\<lambda>r. exprow_resume_id r = saved_id) (resume_experiences (backend w1)))
                = r_experience resume)
         \<and> (r_education resume \<noteq> [] \<longrightarrow>
              map edurow_order_index
                (filter (\<lambda>r. edurow_resume_id r = saved_id) (resume_education (backend w1)))
                = [0 ..< length (r_education resume)]
              \<and> map Education_of_row
                (filter (\<lambda>r. edurow_resume_id r = saved_id) (resume_education (backend w1)))
                = r_education resume)
         \<and> (r_certifications resume \<noteq> [] \<longrightarrow>
              map certrow_order_index
                (filter (\<lambda>r. certrow_resume_id r = saved_id) (resume_certifications (backend w1)))
                = [0 ..< length (r_certifications resume)]
              \<and> map Certification_of_row
                (filter (\<lambda>r. certrow_resume_id r = saved_id) (resume_certifications (backend w1)))
                = r_certifications resume)))
   \<and> (faults w = [] \<and> pool_inv w
        \<and> filter (\<lambda>r. row_id r = ident) (resumes (backend w)) = [rd] \<longrightarrow>
        (\<exists>got.
           fst (getResume ident w) = \<lparr>get_resume = Some got, get_error = None\<rparr>
         \<and> r_id got = row_id rd
         \<and> r_name got = row_name rd
         \<and> r_email got = row_email rd
         \<and> r_phone got = row_phone rd
         \<and> r_location got = row_location rd
         \<and> r_linkedin got = row_linkedin rd
         \<and> r_website got = row_website rd
         \<and> r_summary got = row_summary rd
         \<and> r_skills got = row_skills rd
         \<and> r_experience got =
              map Experience_of_row (sort_key exprow_order_index
                (filter (\<lambda>r. exprow_resume_id r = ident) (resume_experiences (backend w))))
         \<and> r_education got =
              map Education_of_row (sort_key edurow_order_index
                (filter (\<lambda>r. edurow_resume_id r = ident) (resume_education (backend w))))
         \<and> r_certifications got =
              map Certification_of_row (sort_key certrow_order_index
                (filter (\<lambda>r. certrow_resume_id r = ident) (resume_certifications (backend w))))))
   \<and> exp_company (Experience_of_row er) = exprow_company er
   \<and> exp_position (Experience_of_row er) = exprow_position er
   \<and> exp_startDate (Experience_of_row er) = exprow_start_date er
   \<and> exp_endDate (Experience_of_row er) = exprow_end_date er
   \<and> exp_description (Experience_of_row er) = exprow_description er
   \<and> edu_institution (Education_of_row dr) = edurow_institution dr
   \<and> edu_degree (Education_of_row dr) = edurow_degree dr
   \<and> edu_fieldOfStudy (Education_of_row dr) = edurow_field_of_study dr
   \<and> edu_startDate (Education_of_row dr) = edurow_start_date dr
   \<and> edu_endDate (Education_of_row dr) = edurow_end_date dr
   \<and> edu_description (Education_of_row dr) = edurow_description dr
   \<and> cert_name (Certification_of_row cr) = certrow_name cr
   \<and> cert_issuer (Certification_of_row cr) = certrow_issuer cr
   \<and> cert_date (Certification_of_row cr) = certrow_date cr
   \<and> cert_description (Certification_of_row cr) = certrow_description cr"
proof -
  have ins: "map exprow_order_index (fst (map_indexed (experience_row rid) 0 es w0)) = [0 ..< length es]"
    "map Experience_of_row (fst (map_indexed (experience_row rid) 0 es w0)) = es"
    "map edurow_order_index (fst (map_indexed (education_row rid) 0 ds w0)) = [0 ..< length ds]"
    "map Education_of_row (fst (map_indexed (education_row rid) 0 ds w0)) = ds"
    "map certrow_order_index (fst (map_indexed (certification_row rid) 0 cs w0)) = [0 ..< length cs]"
    "map Certification_of_row (fst (map_indexed (certification_row rid) 0 cs w0)) = cs"
    using experience_rows_index[of rid 0 es w0] experience_rows_entries[of rid 0 es w0]
      education_rows_index[of rid 0 ds w0] education_rows_entries[of rid 0 ds w0]
      certification_rows_index[of rid 0 cs w0] certification_rows_entries[of rid 0 cs w0]
    by simp_all
  have sv: "\<exists>saved_id w1.
           saveResume resume w = (\<lparr>save_id = saved_id, save_error = None\<rparr>, w1)
         \<and> (r_experience resume \<noteq> [] \<longrightarrow>
              map exprow_order_index
                (filter (\<lambda>r. exprow_resume_id r = saved_id) (resume_experiences (backend w1)))
                = [0 ..< length (r_experience resume)]
              \<and> map Experience_of_row
                (filter (\<lambda>r. exprow_resume_id r = saved_id) (resume_experiences (backend w1)))
                = r_experience resume)
         \<and> (r_education resume \<noteq> [] \<longrightarrow>
              map edurow_order_index
                (filter (\<lambda>r. edurow_resume_id r = saved_id) (resume_education (backend w1)))
                = [0 ..< length (r_education resume)]
              \<and> map Education_of_row
                (filter (\<lambda>r. edurow_resume_id r = saved_id) (resume_education (backend w1)))
                = r_education resume)
         \<and> (r_certifications resume \<noteq> [] \<longrightarrow>
              map certrow_order_index
                (filter (\<lambda>r. certrow_resume_id r = saved_id) (resume_certifications (backend w1)))
                = [0 ..< length (r_certifications resume)]
              \<and> map Certification_of_row
                (filter (\<lambda>r. certrow_resume_id r = saved_id) (resume_certifications (backend w1)))
                = r_certifications resume)"
    if h: "faults w = []" "pool_inv w"
  proof -
    let ?rid = "resolved_id resume w"
    from saveResume_ok[OF h, of resume] obtain w1 where
      s: "saveResume resume w = (\<lparr>save_id = ?rid, save_error = None\<rparr>, w1)" "saved resume w w1"
      by blast
    have rx: "replaced_by exprow_resume_id exprow_order_index Experience_of_row ?rid
        (r_experience resume) (resume_experiences (backend w)) (resume_experiences (backend w1))"
      and rd: "replaced_by edurow_resume_id edurow_order_index Education_of_row ?rid
        (r_education resume) (resume_education (backend w)) (resume_education (backend w1))"
      and rc: "replaced_by certrow_resume_id certrow_order_index Certification_of_row ?rid
        (r_certifications resume) (resume_certifications (backend w))
        (resume_certifications (backend w1))"
      using s(2) by (simp_all add: saved_def)
    show ?thesis
      using s(1) replaced_by_read[OF rx] replaced_by_read[OF rd] replaced_by_read[OF rc]
      by (intro exI[of _ ?rid] exI[of _ w1]) simp
  qed
  have gt: "\<exists>got.
           fst (getResume ident w) = \<lparr>get_resume = Some got, get_error = None\<rparr>
         \<and> r_id got = row_id rd
         \<and> r_name got = row_name rd
         \<and> r_email got = row_email rd
         \<and> r_phone got = row_phone rd
         \<and> r_location got = row_location rd
         \<and> r_linkedin got = row_linkedin rd
         \<and> r_website got = row_website rd
         \<and> r_summary got = row_summary rd
         \<and> r_skills got = row_skills rd
         \<and> r_experience got =
              map Experience_of_row (sort_key exprow_order_index
                (filter (\<lambda>r. exprow_resume_id r = ident) (resume_experiences (backend w))))
         \<and> r_education got =
              map Education_of_row (sort_key edurow_order_index
                (filter (\<lambda>r. edurow_resume_id r = ident) (resume_education (backend w))))
         \<and> r_certifications got =
              map Certification_of_row (sort_key certrow_order_index
                (filter (\<lambda>r. certrow_resume_id r = ident) (resume_certifications (backend w))))"
    if h: "faults w = []" "pool_inv w" "filter (\<lambda>r. row_id r = ident) (resumes (backend w)) = [rd]"
    using getResume_ok[OF h]
    by (intro exI[of _ "Resume_of_rows rd (experiences_of ident w) (education_of ident w)
               (certifications_of ident w)"])
       (simp add: experiences_of_def education_of_def certifications_of_def Resume_of_rows_def)
  show ?thesis
    using ins sv gt
    by (simp add: Experience_of_row_def Education_of_row_def Certification_of_row_def)
qed

theorem order_keys_dense_witness:
  "faults shuffled_world = [] \<and> pool_inv shuffled_world
   \<and> filter (\<lambda>r. row_id r = ''r1'') (resumes (backend shuffled_world))
       = [resumeData_of ''r1'' (example_resume [] [] []) 7]
   \<and> map Experience_of_row
        (filter (\<lambda>r. exprow_resume_id r = ''r1'') (resume_experiences (backend shuffled_world)))
       = [job_b, job_a]
   \<and> (\<exists>got. fst (getResume ''r1'' shuffled_world) = \<lparr>get_resume = Some got, get_error = None\<rparr>
         \<and> r_id got = ''r1'' \<and> r_name got = ''Ada'' \<and> r_skills got = [''ts'', ''sql'']
         \<and> r_experience got = [job_a, job_b]
         \<and> r_education got = [school_a]
         \<and> r_certifications got = [cert_a, cert_b])
   \<and> (\<exists>saved_id w1.
         saveResume (example_resume [job_b, job_a] [school_a] []) shuffled_world
           = (\<lparr>save_id = saved_id, save_error = None\<rparr>, w1)
       \<and> map exprow_order_index
            (filter (\<lambda>r. exprow_resume_id r = saved_id) (resume_experiences (backend w1)))
            = [0, 1]
       \<and> map Experience_of_row
            (filter (\<lambda>r. exprow_resume_id r = saved_id) (resume_experiences (backend w1)))
            = [job_b, job_a]
       \<and> map edurow_order_index
            (filter (\<lambda>r. edurow_resume_id r = saved_id) (resume_education (backend w1)))
            = [0])
   \<and> map exprow_order_index
        (fst (map_indexed (experience_row ''r1'') 0 [job_a, job_b] shuffled_world)) = [0, 1]"
proof -
  have u: "[0 ..< 2] = [0, 1::nat]" by (simp add: upt_rec)
  let ?rd = "resumeData_of ''r1'' (example_resume [] [] []) 7"
  have g: "\<exists>got. fst (getResume ''r1'' shuffled_world) = \<lparr>get_resume = Some got, get_error = None\<rparr>
         \<and> r_id got = ''r1'' \<and> r_name got = ''Ada'' \<and> r_skills got = [''ts'', ''sql'']
         \<and> r_experience got = [job_a, job_b]
         \<and> r_education got = [school_a]
         \<and> r_certifications got = [cert_a, cert_b]"
    using order_keys_dense[where w = shuffled_world and ident = "''r1''" and rd = ?rd,
        THEN conjunct2, THEN conjunct2, THEN conjunct2, THEN conjunct2, THEN conjunct2,
        THEN conjunct2, THEN conjunct2, THEN conjunct1]
      shuffled_world_ok shuffled_world_reads
    by (auto simp add: resumeData_of_def example_resume_def)
  have s: "\<exists>saved_id w1.
         saveResume (example_resume [job_b, job_a] [school_a] []) shuffled_world
           = (\<lparr>save_id = saved_id, save_error = None\<rparr>, w1)
       \<and> map exprow_order_index
            (filter (\<lambda>r. exprow_resume_id r = saved_id) (resume_experiences (backend w1)))
            = [0, 1]
       \<and> map Experience_of_row
            (filter (\<lambda>r. exprow_resume_id r = saved_id) (resume_experiences (backend w1)))
            = [job_b, job_a]
       \<and> map edurow_order_index
            (filter (\<lambda>r. edurow_resume_id r = saved_id) (resume_education (backend w1)))
            = [0]"
    using order_keys_dense[where w = shuffled_world
        and resume = "example_resume [job_b, job_a] [school_a] []",
        THEN conjunct2, THEN conjunct2, THEN conjunct2, THEN conjunct2, THEN conjunct2,
        THEN conjunct2, THEN conjunct1]
      shuffled_world_ok
    by (auto simp add: example_resume_def u)
  have i: "map exprow_order_index
        (fst (map_indexed (experience_row ''r1'') 0 [job_a, job_b] shuffled_world)) = [0, 1]"
    using order_keys_dense[where rid = "''r1''" and es = "[job_a, job_b]"
        and ?w0.0 = shuffled_world, THEN conjunct1]
    by (simp add: u)
  show ?thesis using g s i shuffled_world_ok shuffled_world_reads(4) by simp
qed

section \<open>Results of the repository operations\<close>

text \<open>
  C7. Each of \<open>saveResume\<close>, \<open>getResume\<close>, \<open>getAllResumes\<close> and \<open>deleteResume\<close>
  returns its result record in every world: an error the executor throws is caught and
  becomes the error field. Whenever the error field is not \<open>null\<close>, the data field is the
  empty identifier, \<open>null\<close>, or the empty list.
\<close>

theorem repository_results:
  "(save_error (fst (saveResume resume w)) \<noteq> None \<longrightarrow> save_id (fst (saveResume resume w)) = [])
   \<and> (get_error (fst (getResume ident w)) \<noteq> None \<longrightarrow> get_resume (fst (getResume ident w)) = None)
   \<and> (getAll_error (fst (getAllResumes w)) \<noteq> None \<longrightarrow> getAll_resumes (fst (getAllResumes w)) = [])
   \<and> (\<forall>e. fst (executeWithPermanentConnection (saveResume_operation resume) ''saveResume''
                 default_maxRetries w) = Inl e
        \<longrightarrow> fst (saveResume resume w) = \<lparr>save_id = [], save_error = Some e\<rparr>)
   \<and> (\<forall>e. fst (executeWithPermanentConnection (getResume_operation ident) ''getResume''
                 default_maxRetries w) = Inl e
        \<longrightarrow> fst (getResume ident w) = \<lparr>get_resume = None, get_error = Some e\<rparr>)
   \<and> (\<forall>e. fst (executeWithPermanentConnection getAllResumes_operation ''getAllResumes''
                 default_maxRetries w) = Inl e
        \<longrightarrow> fst (getAllResumes w) = \<lparr>getAll_resumes = [], getAll_error = Some e\<rparr>)
   \<and> (\<forall>e. fst (executeWithPermanentConnection (deleteResume_operation ident) ''deleteResume''
                 default_maxRetries w) = Inl e
        \<longrightarrow> fst (deleteResume ident w) = \<lparr>delete_error = Some e\<rparr>)"
  by (simp add: saveResume_def getResume_def getAllResumes_def deleteResume_def
      split: prod.splits sum.splits)

lemma unreachable_runs:
  "fst (executeWithPermanentConnection (saveResume_operation (example_resume [job_a] [] []))
          ''saveResume'' default_maxRetries unreachable_world) = Inl fetch_failed"
  "fst (executeWithPermanentConnection (getResume_operation ''r1'') ''getResume''
          default_maxRetries unreachable_world) = Inl fetch_failed"
  "fst (executeWithPermanentConnection getAllResumes_operation ''getAllResumes''
          default_maxRetries unreachable_world) = Inl fetch_failed"
  "fst (executeWithPermanentConnection (deleteResume_operation ''r1'') ''deleteResume''
          default_maxRetries unreachable_world) = Inl fetch_failed"
  by (simp_all add: unreachable_world_def run_defs repo_defs getAllResumes_operation_def
      select_all_resumes_def deleteResume_operation_def delete_resume_def)

theorem repository_results_witness:
  "save_error (fst (saveResume (example_resume [job_a] [] []) unreachable_world)) \<noteq> None
   \<and> save_id (fst (saveResume (example_resume [job_a] [] []) unreachable_world)) = []
   \<and> get_error (fst (getResume ''r1'' unreachable_world)) \<noteq> None
   \<and> get_resume (fst (getResume ''r1'' unreachable_world)) = None
   \<and> getAll_error (fst (getAllResumes unreachable_world)) \<noteq> None
   \<and> getAll_resumes (fst (getAllResumes unreachable_world)) = []
   \<and> fst (saveResume (example_resume [job_a] [] []) unreachable_world)
       = \<lparr>save_id = [], save_error = Some fetch_failed\<rparr>
   \<and> fst (getResume ''r1'' unreachable_world)
       = \<lparr>get_resume = None, get_error = Some fetch_failed\<rparr>
   \<and> fst (getAllResumes unreachable_world)
       = \<lparr>getAll_resumes = [], getAll_error = Some fetch_failed\<rparr>
   \<and> fst (deleteResume ''r1'' unreachable_world) = \<lparr>delete_error = Some fetch_failed\<rparr>"
  using repository_results[where resume = "example_resume [job_a] [] []" and ident = "''r1''"
      and w = unreachable_world] unreachable_runs
  by auto

section \<open>Retries, attempts and waits\<close>


lemma getSupabaseClient_step:
  assumes "pool_inv w"
  shows "\<exists>c w1. getSupabaseClient w = (Some c, w1) \<and> pool_inv w1 \<and> faults w1 = faults w
     \<and> console w1 = console w \<and> sleeps w1 = sleeps w
     \<and> currentIndex (connectionPool w1) = (currentIndex (connectionPool w) + 1) mod poolSize"
  using assms
  by (simp add: getSupabaseClient_def getClient_def Let_def pool_inv_def poolSize_def)

lemma fault_error_Cons:
  "map fault_error fs = map Some (e # es) \<Longrightarrow>
   \<exists>f fs'. fs = f # fs' \<and> fault_error f = Some e \<and> map fault_error fs' = map Some es"
  by (cases fs) auto

lemma exec_sustained_faults:
  assumes ab: "aborts_on_fault operation"
  shows "pool_inv w \<Longrightarrow> faults w = fs @ rest \<Longrightarrow> map fault_error fs = map Some es
     \<Longrightarrow> length es = maxRetries - attempt \<Longrightarrow>
     \<exists>w'. executeWithPermanentConnection_loop operation name maxRetries attempt lastError w
               = (Inl (last (lastError # es)), w')
       \<and> faults w' = rest
       \<and> console w' = console w @ attempt_lines name attempt es
       \<and> sleeps w' = sleeps w @ map (\<lambda>k. 100 * (k + 1)) [attempt ..< maxRetries - 1]
       \<and> currentIndex (connectionPool w')
           = (currentIndex (connectionPool w) + length es) mod poolSize"
proof (induction es arbitrary: attempt lastError w fs)
  case Nil
  then have "\<not> attempt < maxRetries" and "fs = []" by simp_all
  then show ?case
    using Nil.prems
    by (intro exI[of _ w]) (simp add: exec_loop_done attempt_lines_def pool_inv_def)
next
  case (Cons e es)
  then have lt: "attempt < maxRetries" by simp
  from fault_error_Cons[OF Cons.prems(3)] obtain f fs' where
    f: "fs = f # fs'" "fault_error f = Some e" "map fault_error fs' = map Some es"
    by blast
  from getSupabaseClient_step[OF Cons.prems(1)] obtain c w1 where
    g: "getSupabaseClient w = (Some c, w1)" "pool_inv w1" "faults w1 = faults w"
      "console w1 = console w" "sleeps w1 = sleeps w"
      "currentIndex (connectionPool w1) = (currentIndex (connectionPool w) + 1) mod poolSize"
    by blast
  have fw1: "faults w1 = f # (fs' @ rest)" using g(3) Cons.prems(2) f(1) by simp
  from ab fw1 f(2) obtain w2 where
    o: "operation (Some c) w1 = (Inl e, w2)" "faults w2 = fs' @ rest"
      "connectionPool w2 = connectionPool w1" "console w2 = console w1" "sleeps w2 = sleeps w1"
    unfolding aborts_on_fault_def by blast
  have pi2: "pool_inv w2" using g(2) o(3) by (simp add: pool_inv_def)
  show ?case
  proof (cases "attempt + 1 < maxRetries")
    case True
    let ?w3 = "sleep (100 * (attempt + 1)) (console_log (Attempt name (attempt + 1) e) w2)"
    have step: "executeWithPermanentConnection_loop operation name maxRetries attempt lastError w
        = executeWithPermanentConnection_loop operation name maxRetries (attempt + 1) e ?w3"
      using exec_loop_retry[of attempt maxRetries w "Some c" w1 operation e w2 name lastError]
        True g(1) o(1) by simp
    have pi3: "pool_inv ?w3" using pi2 by (simp add: pool_inv_def sleep_def console_log_def)
    have f3: "faults ?w3 = fs' @ rest" using o(2) by (simp add: sleep_def console_log_def)
    have d: "length es = maxRetries - (attempt + 1)" using Cons.prems(4) by simp
    from Cons.IH[OF pi3 f3 f(3) d, of e] obtain w' where
      ih: "executeWithPermanentConnection_loop operation name maxRetries (attempt + 1) e ?w3
             = (Inl (last (e # es)), w')"
        "faults w' = rest"
        "console w' = console ?w3 @ attempt_lines name (attempt + 1) es"
        "sleeps w' = sleeps ?w3 @ map (\<lambda>k. 100 * (k + 1)) [attempt + 1 ..< maxRetries - 1]"
        "currentIndex (connectionPool w')
           = (currentIndex (connectionPool ?w3) + length es) mod poolSize"
      by blast
    have up: "[attempt ..< maxRetries - 1] = attempt # [attempt + 1 ..< maxRetries - 1]"
      using True by (simp add: upt_rec[of attempt])
    have r1: "executeWithPermanentConnection_loop operation name maxRetries attempt lastError w
        = (Inl (last (lastError # e # es)), w')"
      using step ih(1) by simp
    have r3: "console w' = console w @ attempt_lines name attempt (e # es)"
      using ih(3) by (simp add: attempt_lines_Cons g o console_log_def sleep_def)
    have r4: "sleeps w' = sleeps w @ map (\<lambda>k. 100 * (k + 1)) [attempt ..< maxRetries - 1]"
      unfolding up using ih(4) by (simp add: g o console_log_def sleep_def)
    have ci3: "currentIndex (connectionPool ?w3) = (currentIndex (connectionPool w) + 1) mod poolSize"
      using g(6) o(3) by (simp add: sleep_def console_log_def)
    have r5: "currentIndex (connectionPool w')
           = (currentIndex (connectionPool w) + length (e # es)) mod poolSize"
      unfolding ih(5) ci3 by (simp add: mod_add_left_eq add.assoc)
    show ?thesis using r1 ih(2) r3 r4 r5 by blast
  next
    case False
    with lt have eq: "attempt + 1 = maxRetries" by simp
    have "Suc (length es) = maxRetries - attempt" using Cons.prems(4) by simp
    with eq have "length es < 1" by arith
    then have es0: "es = []" by simp
    then have fs0: "fs' = []" using f(3) by simp
    let ?w' = "console_log (Attempt name (attempt + 1) e) w2"
    have e0: "[attempt ..< maxRetries - 1] = []" using eq by simp
    have r1: "executeWithPermanentConnection_loop operation name maxRetries attempt lastError w
        = (Inl (last (lastError # e # es)), ?w')"
      using exec_loop_last[of attempt maxRetries w "Some c" w1 operation e w2 name lastError]
        eq g(1) o(1) es0 by simp
    have r2: "faults ?w' = rest" using o(2) fs0 by (simp add: console_log_def)
    have r3: "console ?w' = console w @ attempt_lines name attempt (e # es)"
      by (simp add: attempt_lines_def es0 g o console_log_def)
    have r4: "sleeps ?w' = sleeps w @ map (\<lambda>k. 100 * (k + 1)) [attempt ..< maxRetries - 1]"
      unfolding e0 by (simp add: g o console_log_def)
    have r5: "currentIndex (connectionPool ?w')
           = (currentIndex (connectionPool w) + length (e # es)) mod poolSize"
      using g(6) o(3) by (simp add: es0 console_log_def)
    show ?thesis using r1 r2 r3 r4 r5 by blast
  qed
qed

lemma request_fault:
  "faults w = f # fs \<Longrightarrow> fault_error f = Some e \<Longrightarrow>
   \<exists>w'. throw_if_error (request (Some c) q w) = (Inl e, w') \<and> faults w' = fs
     \<and> connectionPool w' = connectionPool w \<and> console w' = console w \<and> sleeps w' = sleeps w"
  by (cases f) (simp_all add: fault_error_def request_def throw_if_error_def)

lemma and_then_Inl: "m w = (Inl e, w1) \<Longrightarrow> and_then m f w = (Inl e, w1)"
  by (simp add: and_then_def)

lemma deleteResume_operation_aborts: "aborts_on_fault (deleteResume_operation ident)"
  unfolding aborts_on_fault_def
proof (intro allI impI)
  fix c :: nat and w :: world and f e fs
  assume a: "faults w = f # fs \<and> fault_error f = Some e"
  from request_fault[of w f fs e c "delete_resume ident"] a obtain w' where
    r: "throw_if_error (request (Some c) (delete_resume ident) w) = (Inl e, w')"
      "faults w' = fs" "connectionPool w' = connectionPool w" "console w' = console w"
      "sleeps w' = sleeps w"
    by blast
  have "deleteResume_operation ident (Some c) w = (Inl e, w')"
    unfolding deleteResume_operation_def by (rule and_then_Inl) (rule r(1))
  with r show "\<exists>w'. deleteResume_operation ident (Some c) w = (Inl e, w') \<and> faults w' = fs \<and>
            connectionPool w' = connectionPool w \<and> console w' = console w \<and> sleeps w' = sleeps w"
    by blast
qed




lemma withRetry_deleteResume_operation_aborts:
  "aborts_on_fault (\<lambda>c. withRetry_deleteResume_operation ident)"
  unfolding aborts_on_fault_def
proof (intro allI impI)
  fix c :: nat and w :: world and f e fs
  assume a: "faults w = f # fs \<and> fault_error f = Some e"
  from request_fault[of w f fs e 0 "delete_resume ident"] a obtain w' where
    r: "throw_if_error (request supabase (delete_resume ident) w) = (Inl e, w')"
      "faults w' = fs" "connectionPool w' = connectionPool w" "console w' = console w"
      "sleeps w' = sleeps w"
    unfolding supabase_def by blast
  have "withRetry_deleteResume_operation ident w = (Inl e, w')"
    unfolding withRetry_deleteResume_operation_def by (rule and_then_Inl) (rule r(1))
  with r show "\<exists>w'. withRetry_deleteResume_operation ident w = (Inl e, w') \<and> faults w' = fs \<and>
            connectionPool w' = connectionPool w \<and> console w' = console w \<and> sleeps w' = sleeps w"
    by blast
qed


lemma wr_sustained_faults:
  assumes ab: "aborts_on_fault (\<lambda>c. operation)"
  shows "faults w = fs @ rest \<Longrightarrow> map fault_error fs = map Some (e0 # es)
     \<Longrightarrow> RETRY_CONFIG_maxRetries = attempt + length es
     \<Longrightarrow> \<forall>e \<in> set (e0 # es). isRetryable toLowerCase e \<Longrightarrow>
     \<exists>w'. withRetry_loop toLowerCase operation name attempt lastError w
             = (Inl (last (e0 # es)), w')
       \<and> faults w' = rest
       \<and> sleeps w' = sleeps w @ map calculateDelay [attempt ..< RETRY_CONFIG_maxRetries]"
proof (induction es arbitrary: e0 attempt lastError w fs)
  case Nil
  then have eq: "attempt = RETRY_CONFIG_maxRetries" by simp
  from fault_error_Cons[OF Nil.prems(2)] obtain f fs' where
    f: "fs = f # fs'" "fault_error f = Some e0" "map fault_error fs' = map Some []"
    by blast
  then have fs0: "fs' = []" by simp
  have fw: "faults w = f # rest" using Nil.prems(1) f(1) fs0 by simp
  from ab fw f(2) obtain w1 where
    o: "operation w = (Inl e0, w1)" "faults w1 = rest" "sleeps w1 = sleeps w"
    unfolding aborts_on_fault_def by blast
  show ?case
    using wr_last[of attempt operation w e0 w1 toLowerCase name lastError] o eq
    by (simp add: console_log_def)
next
  case (Cons e1 es)
  then have lt: "attempt < RETRY_CONFIG_maxRetries" by simp
  from fault_error_Cons[OF Cons.prems(2)] obtain f fs' where
    f: "fs = f # fs'" "fault_error f = Some e0" "map fault_error fs' = map Some (e1 # es)"
    by blast
  have fw: "faults w = f # (fs' @ rest)" using Cons.prems(1) f(1) by simp
  from ab fw f(2) obtain w1 where
    o: "operation w = (Inl e0, w1)" "faults w1 = fs' @ rest" "sleeps w1 = sleeps w"
    unfolding aborts_on_fault_def by blast
  have re: "isRetryable toLowerCase e0" using Cons.prems(4) by simp
  let ?w3 = "sleep (calculateDelay attempt)
            (console_log (Retrying name (calculateDelay attempt))
               (console_log (AttemptFailed name (attempt + 1) e0) w1))"
  have step: "withRetry_loop toLowerCase operation name attempt lastError w
     = withRetry_loop toLowerCase operation name (attempt + 1) (Some e0) ?w3"
    using wr_retry[of attempt operation w e0 w1 toLowerCase name lastError] lt o(1) re by simp
  have f3: "faults ?w3 = fs' @ rest" using o(2) by (simp add: sleep_def console_log_def)
  have d: "RETRY_CONFIG_maxRetries = (attempt + 1) + length es" using Cons.prems(3) by simp
  have rs: "\<forall>e \<in> set (e1 # es). isRetryable toLowerCase e" using Cons.prems(4) by simp
  from Cons.IH[OF f3 f(3) d rs, of "Some e0"] obtain w' where
    ih: "withRetry_loop toLowerCase operation name (attempt + 1) (Some e0) ?w3
           = (Inl (last (e1 # es)), w')"
      "faults w' = rest"
      "sleeps w' = sleeps ?w3 @ map calculateDelay [attempt + 1 ..< RETRY_CONFIG_maxRetries]"
    by blast
  have up: "[attempt ..< RETRY_CONFIG_maxRetries] = attempt # [attempt + 1 ..< RETRY_CONFIG_maxRetries]"
    using lt by (simp add: upt_rec[of attempt])
  have r1: "withRetry_loop toLowerCase operation name attempt lastError w
      = (Inl (last (e0 # e1 # es)), w')"
    using step ih(1) by simp
  have r3: "sleeps w' = sleeps w @ map calculateDelay [attempt ..< RETRY_CONFIG_maxRetries]"
    unfolding up using ih(3) by (simp add: o(3) sleep_def console_log_def)
  show ?case using r1 ih(2) r3 by blast
qed

lemma wr_fatal_fault:
  assumes ab: "aborts_on_fault (\<lambda>c. operation)"
    and fw: "faults w = f # rest" and fe: "fault_error f = Some e"
    and nr: "\<not> isRetryable toLowerCase e"
  shows "\<exists>w'. withRetry toLowerCase operation name w = (Inl e, w') \<and> faults w' = rest
     \<and> sleeps w' = sleeps w"
proof -
  from ab fw fe obtain w1 where
    o: "operation w = (Inl e, w1)" "faults w1 = rest" "sleeps w1 = sleeps w"
    unfolding aborts_on_fault_def by blast
  show ?thesis
    using wr_fatal[of 0 operation w e w1 toLowerCase name None] o nr
    by (simp add: withRetry_def console_log_def)
qed

lemma example_world_pool: "pool_inv (example_world fs)" "faults (example_world fs) = fs"
  "sleeps (example_world fs) = []" "console (example_world fs) = []"
  "currentIndex (connectionPool (example_world fs)) = 0"
  by (simp_all add: example_world_def blank_world_def new_pool_eq pool_inv_def poolSize_def)

text \<open>
  C3 (amended). An error is retryable exactly when it is an \<open>Error\<close> instance whose
  message, lower-cased, contains one of \<open>connection\<close>, \<open>timeout\<close>, \<open>network\<close>,
  \<open>fetch\<close>, \<open>refused\<close>, \<open>502\<close>, \<open>503\<close>, \<open>504\<close>. \<open>withRetry\<close> classifies the
  error of a failed attempt: an error that is not retryable is rethrown at once, with no
  wait and no further attempt (an operation whose first request fails with such an error
  has made that one request and no other when \<open>withRetry\<close> returns); a retryable error,
  when an attempt remains, leads to the next attempt after the wait. The pooled executor
  \<open>executeWithPermanentConnection\<close> does not classify: whatever the error, when an
  attempt remains it waits and makes the next attempt.
\<close>

theorem retry_classification:
  "isRetryable toLowerCase (Error m)
     = (includes_str (toLowerCase m) ''connection'' \<or> includes_str (toLowerCase m) ''timeout''
        \<or> includes_str (toLowerCase m) ''network'' \<or> includes_str (toLowerCase m) ''fetch''
        \<or> includes_str (toLowerCase m) ''refused'' \<or> includes_str (toLowerCase m) ''502''
        \<or> includes_str (toLowerCase m) ''503'' \<or> includes_str (toLowerCase m) ''504'')
   \<and> \<not> isRetryable toLowerCase (Other d)
   \<and> (attempt \<le> RETRY_CONFIG_maxRetries \<and> operation w = (Inl e, w') \<and> \<not> isRetryable toLowerCase e
      \<longrightarrow> withRetry_loop toLowerCase operation name attempt lastError w
            = (Inl e, console_log (AttemptFailed name (attempt + 1) e) w'))
   \<and> (attempt < RETRY_CONFIG_maxRetries \<and> operation w = (Inl e, w') \<and> isRetryable toLowerCase e
      \<longrightarrow> withRetry_loop toLowerCase operation name attempt lastError w
            = withRetry_loop toLowerCase operation name (attempt + 1) (Some e)
                (sleep (calculateDelay attempt)
                   (console_log (Retrying name (calculateDelay attempt))
                      (console_log (AttemptFailed name (attempt + 1) e) w'))))
   \<and> (attempt + 1 < maxRetries \<and> getSupabaseClient w = (c, wc) \<and> pooled c wc = (Inl e, wd)
      \<longrightarrow> executeWithPermanentConnection_loop pooled name maxRetries attempt pooledError w
            = executeWithPermanentConnection_loop pooled name maxRetries (attempt + 1) e
                (sleep (100 * (attempt + 1)) (console_log (Attempt name (attempt + 1) e) wd)))
   \<and> (aborts_on_fault (\<lambda>c. operation) \<and> faults w = f # rest \<and> fault_error f = Some e
        \<and> \<not> isRetryable toLowerCase e
      \<longrightarrow> (\<exists>w1. withRetry toLowerCase operation name w = (Inl e, w1) \<and> faults w1 = rest
             \<and> sleeps w1 = sleeps w))
   \<and> aborts_on_fault (\<lambda>c. withRetry_deleteResume_operation ident)"
proof -
  have a: "isRetryable toLowerCase (Error m)
     = (includes_str (toLowerCase m) ''connection'' \<or> includes_str (toLowerCase m) ''timeout''
        \<or> includes_str (toLowerCase m) ''network'' \<or> includes_str (toLowerCase m) ''fetch''
        \<or> includes_str (toLowerCase m) ''refused'' \<or> includes_str (toLowerCase m) ''502''
        \<or> includes_str (toLowerCase m) ''503'' \<or> includes_str (toLowerCase m) ''504'')"
    by (simp add: isRetryable_def Let_def)
  have b: "\<not> isRetryable toLowerCase (Other d)"
    by (simp add: isRetryable_def Let_def includes_str_def)
  have g: "\<exists>w1. withRetry toLowerCase operation name w = (Inl e, w1) \<and> faults w1 = rest
             \<and> sleeps w1 = sleeps w"
    if "aborts_on_fault (\<lambda>c. operation)" "faults w = f # rest" "fault_error f = Some e"
       "\<not> isRetryable toLowerCase e"
    using wr_fatal_fault[OF that] .
  show ?thesis
    using a b g wr_fatal[of attempt operation w e w' toLowerCase name lastError]
      wr_retry[of attempt operation w e w' toLowerCase name lastError]
      exec_loop_retry[of attempt maxRetries w c wc pooled e wd name pooledError]
      withRetry_deleteResume_operation_aborts[of ident]
    by blast
qed


text \<open>
  C6 (amended). \<open>calculateDelay k\<close> is \<open>min (baseDelay * 2 ^ k) maxDelay\<close> with
  \<open>baseDelay = 1000\<close> and \<open>maxDelay = 5000\<close>, and it never decreases in \<open>k\<close>.
  \<open>withRetry\<close> waits \<open>calculateDelay k\<close> after the failed attempt \<open>k\<close> when the error
  is retryable and an attempt remains. The pooled executor
  \<open>executeWithPermanentConnection\<close> does not use \<open>calculateDelay\<close>: after the failed
  attempt \<open>k\<close>, when an attempt remains, it waits \<open>100 * (k + 1)\<close> milliseconds, with no
  cap. Under requests that keep failing, \<open>withRetry\<close> so waits 1000, 2000 and 4000
  milliseconds, and the pooled executor 100, 200, ... up to \<open>100 * (maxRetries - 1)\<close>.
\<close>

theorem backoff_delays:
  "calculateDelay k = min (RETRY_CONFIG_baseDelay * 2 ^ k) RETRY_CONFIG_maxDelay
   \<and> RETRY_CONFIG_baseDelay = 1000 \<and> RETRY_CONFIG_maxDelay = 5000
   \<and> (k \<le> k' \<longrightarrow> calculateDelay k \<le> calculateDelay k')
   \<and> (attempt < RETRY_CONFIG_maxRetries \<and> operation w = (Inl e, w1) \<and> isRetryable toLowerCase e
        \<longrightarrow> withRetry_loop toLowerCase operation name attempt lastError w
              = withRetry_loop toLowerCase operation name (attempt + 1) (Some e)
                  (sleep (calculateDelay attempt)
                     (console_log (Retrying name (calculateDelay attempt))
                        (console_log (AttemptFailed name (attempt + 1) e) w1)))
            \<and> sleeps (sleep (calculateDelay attempt)
                     (console_log (Retrying name (calculateDelay attempt))
                        (console_log (AttemptFailed name (attempt + 1) e) w1)))
              = sleeps w1 @ [calculateDelay attempt])
   \<and> (attempt + 1 < maxRetries \<and> getSupabaseClient w = (c, wc) \<and> pooled c wc = (Inl e, wd)
        \<longrightarrow> executeWithPermanentConnection_loop pooled name maxRetries attempt pooledError w
              = executeWithPermanentConnection_loop pooled name maxRetries (attempt + 1) e
                  (sleep (100 * (attempt + 1)) (console_log (Attempt name (attempt + 1) e) wd))
            \<and> sleeps (sleep (100 * (attempt + 1)) (console_log (Attempt name (attempt + 1) e) wd))
              = sleeps wd @ [100 * (attempt + 1)])
   \<and> (aborts_on_fault (\<lambda>c. operation) \<and> faults w = fs @ rest
        \<and> map fault_error fs = map Some es \<and> length es = Suc RETRY_CONFIG_maxRetries
        \<and> (\<forall>x \<in> set es. isRetryable toLowerCase x)
        \<longrightarrow> (\<exists>w'. withRetry toLowerCase operation name w = (Inl (last es), w')
               \<and> faults w' = rest
               \<and> sleeps w' = sleeps w @ map calculateDelay [0 ..< RETRY_CONFIG_maxRetries]))
   \<and> (aborts_on_fault pooled \<and> pool_inv w \<and> faults w = fs @ rest
        \<and> map fault_error fs = map Some es \<and> length es = maxRetries
        \<longrightarrow> (\<exists>w'. executeWithPermanentConnection pooled name maxRetries w
                      = (Inl (last (unknown_error # es)), w')
               \<and> faults w' = rest
               \<and> sleeps w' = sleeps w @ map (\<lambda>k. 100 * (k + 1)) [0 ..< maxRetries - 1]))"
proof -
  have a: "calculateDelay k = min (RETRY_CONFIG_baseDelay * 2 ^ k) RETRY_CONFIG_maxDelay"
    by (simp add: calculateDelay_def Let_def)
  have c1: "sleeps (sleep (calculateDelay attempt)
                     (console_log (Retrying name (calculateDelay attempt))
                        (console_log (AttemptFailed name (attempt + 1) e) w1)))
              = sleeps w1 @ [calculateDelay attempt]"
    by (simp add: sleep_def console_log_def)
  have c2: "sleeps (sleep (100 * (attempt + 1)) (console_log (Attempt name (attempt + 1) e) wd))
              = sleeps wd @ [100 * (attempt + 1)]"
    by (simp add: sleep_def console_log_def)
  have r1: "\<exists>w'. withRetry toLowerCase operation name w = (Inl (last es), w')
               \<and> faults w' = rest
               \<and> sleeps w' = sleeps w @ map calculateDelay [0 ..< RETRY_CONFIG_maxRetries]"
    if h: "aborts_on_fault (\<lambda>c. operation)" "faults w = fs @ rest"
       "map fault_error fs = map Some es" "length es = Suc RETRY_CONFIG_maxRetries"
       "\<forall>x \<in> set es. isRetryable toLowerCase x"
  proof -
    from h(4) obtain e0 es' where es: "es = e0 # es'" by (cases es) simp_all
    have d: "RETRY_CONFIG_maxRetries = 0 + length es'" using h(4) es by simp
    from wr_sustained_faults[OF h(1) h(2) h(3)[unfolded es] d h(5)[unfolded es], of name None]
    show ?thesis unfolding withRetry_def es by blast
  qed
  have r2: "\<exists>w'. executeWithPermanentConnection pooled name maxRetries w
                      = (Inl (last (unknown_error # es)), w')
               \<and> faults w' = rest
               \<and> sleeps w' = sleeps w @ map (\<lambda>k. 100 * (k + 1)) [0 ..< maxRetries - 1]"
    if h: "aborts_on_fault pooled" "pool_inv w" "faults w = fs @ rest"
       "map fault_error fs = map Some es" "length es = maxRetries"
  proof -
    have d: "length es = maxRetries - 0" using h(5) by simp
    from exec_sustained_faults[OF h(1) h(2) h(3) h(4) d, of name unknown_error]
    show ?thesis unfolding executeWithPermanentConnection_def by blast
  qed
  show ?thesis
    using a c1 c2 r1 r2 calculateDelay_mono[of k k']
      wr_retry[of attempt operation w e w1 toLowerCase name lastError]
      exec_loop_retry[of attempt maxRetries w c wc pooled e wd name pooledError]
    by (simp add: RETRY_CONFIG_baseDelay_def RETRY_CONFIG_maxDelay_def)
qed


text \<open>Facts for running \<open>withRetry\<close> on the example worlds.\<close>

lemma wr_loop_unfold:
  "attempt \<le> RETRY_CONFIG_maxRetries \<Longrightarrow>
   withRetry_loop toLowerCase operation operationName attempt lastError w =
        (case operation w of
           (Inr result, w1) \<Rightarrow> (Inr result, w1)
         | (Inl error, w1) \<Rightarrow>
             (let w2 = console_log (AttemptFailed operationName (attempt + 1) error) w1 in
              if attempt = RETRY_CONFIG_maxRetries then throw_lastError (Some error) w2
              else if \<not> isRetryable toLowerCase error then (Inl error, w2)
              else (let delay = calculateDelay attempt in
                    withRetry_loop toLowerCase operation operationName (attempt + 1) (Some error)
                      (sleep delay (console_log (Retrying operationName delay) w2)))))"
  by (subst withRetry_loop.simps) simp

lemma permission_denied_not_retryable:
  "\<not> isRetryable ascii_toLowerCase (Error ''permission denied for table resumes'')"
  by code_simp

lemma network_timeout_retryable: "isRetryable ascii_toLowerCase (Error ''Network timeout'')"
  by code_simp

lemma connection_refused_retryable:
  "isRetryable ascii_toLowerCase (Error ''ECONNREFUSED: Connection refused'')"
  by code_simp

lemma bad_gateway_retryable: "isRetryable ascii_toLowerCase (Error ''HTTP 502 Bad Gateway'')"
  by code_simp

lemmas wr_run_defs = withRetry_def wr_loop_unfold RETRY_CONFIG_maxRetries_def throw_lastError_def
  withRetry_deleteResume_operation_def supabase_def delete_resume_def deleteResume_withRetry_def
  calculateDelay_eq permission_denied_not_retryable network_timeout_retryable

text \<open>
  Against C3 as stated: the store refuses a delete with \<open>permission denied\<close>, an error
  that is not retryable; \<open>deleteResume\<close> does not return it. The pooled executor logs
  the failed attempt, waits 100 milliseconds, tries again, and the call succeeds.
\<close>

theorem pooled_executor_retries_permanent_error:
  "\<not> isRetryable ascii_toLowerCase (Error ''permission denied for table resumes'')
   \<and> fst (deleteResume ''r1''
        (example_world [ReturnsError (Error ''permission denied for table resumes'')]))
      = \<lparr>delete_error = None\<rparr>
   \<and> console (snd (deleteResume ''r1''
        (example_world [ReturnsError (Error ''permission denied for table resumes'')])))
      = [Attempt ''deleteResume'' 1 (Error ''permission denied for table resumes'')]
   \<and> sleeps (snd (deleteResume ''r1''
        (example_world [ReturnsError (Error ''permission denied for table resumes'')])))
      = [100]"
  using permission_denied_not_retryable
  by (simp add: run_defs deleteResume_def deleteResume_operation_def delete_resume_def)

theorem retry_classification_witness:
  "isRetryable ascii_toLowerCase (Error ''ECONNREFUSED: Connection refused'')
   \<and> isRetryable ascii_toLowerCase (Error ''HTTP 502 Bad Gateway'')
   \<and> \<not> isRetryable ascii_toLowerCase (Error ''permission denied for table resumes'')
   \<and> \<not> isRetryable ascii_toLowerCase (Other ''Network timeout'')
   \<and> (\<exists>w1. withRetry ascii_toLowerCase (withRetry_deleteResume_operation ''r1'') ''deleteResume''
              (example_world [ReturnsError (Error ''permission denied for table resumes''), NoFault])
            = (Inl (Error ''permission denied for table resumes''), w1)
          \<and> faults w1 = [NoFault] \<and> sleeps w1 = [])
   \<and> fst (deleteResume_withRetry ascii_toLowerCase ''r1''
        (example_world [ReturnsError (Error ''permission denied for table resumes''), NoFault]))
      = \<lparr>delete_error = Some (Error ''permission denied for table resumes'')\<rparr>
   \<and> fst (deleteResume_withRetry ascii_toLowerCase ''r1''
        (example_world [Throws (Error ''Network timeout''), NoFault]))
      = \<lparr>delete_error = None\<rparr>
   \<and> sleeps (snd (deleteResume_withRetry ascii_toLowerCase ''r1''
        (example_world [Throws (Error ''Network timeout''), NoFault]))) = [1000]
   \<and> fst (deleteResume ''r1''
        (example_world [ReturnsError (Error ''permission denied for table resumes''), NoFault]))
      = \<lparr>delete_error = None\<rparr>"
proof -
  let ?p = "Error ''permission denied for table resumes''"
  let ?n = "Error ''Network timeout''"
  let ?op = "withRetry_deleteResume_operation ''r1''"
  let ?wp = "example_world [ReturnsError ?p, NoFault]"
  let ?wn = "example_world [Throws ?n, NoFault]"
  have o: "\<not> isRetryable ascii_toLowerCase (Other ''Network timeout'')"
    using retry_classification[where toLowerCase = ascii_toLowerCase and d = "''Network timeout''",
        THEN conjunct2, THEN conjunct1] .
  have ab: "aborts_on_fault (\<lambda>c. ?op)"
    using retry_classification[where ident = "''r1''", THEN conjunct2, THEN conjunct2, THEN conjunct2, THEN conjunct2, THEN conjunct2, THEN conjunct2] .
  have run: "\<exists>w1. withRetry ascii_toLowerCase ?op ''deleteResume'' ?wp = (Inl ?p, w1)
          \<and> faults w1 = [NoFault] \<and> sleeps w1 = []"
    using retry_classification[where toLowerCase = ascii_toLowerCase and operation = ?op
        and w = ?wp and f = "ReturnsError ?p" and rest = "[NoFault]" and e = ?p
        and name = "''deleteResume''", THEN conjunct2, THEN conjunct2, THEN conjunct2, THEN conjunct2, THEN conjunct2, THEN conjunct1]
      ab permission_denied_not_retryable example_world_pool[of "[ReturnsError ?p, NoFault]"]
    by (simp add: fault_error_def)
  have opn: "?op ?wn = (Inl ?n, snd (?op ?wn))"
    by (simp add: run_defs wr_run_defs)
  have retry: "withRetry_loop ascii_toLowerCase ?op ''deleteResume'' 0 None ?wn
      = withRetry_loop ascii_toLowerCase ?op ''deleteResume'' 1 (Some ?n)
          (sleep 1000 (console_log (Retrying ''deleteResume'' 1000)
             (console_log (AttemptFailed ''deleteResume'' 1 ?n) (snd (?op ?wn)))))"
    using retry_classification[where toLowerCase = ascii_toLowerCase and operation = ?op
        and attempt = 0 and w = ?wn and e = ?n and w' = "snd (?op ?wn)"
        and name = "''deleteResume''" and lastError = None, THEN conjunct2, THEN conjunct2, THEN conjunct2, THEN conjunct1]
      opn network_timeout_retryable
    by (simp add: RETRY_CONFIG_maxRetries_def calculateDelay_eq)
  have r1: "fst (deleteResume_withRetry ascii_toLowerCase ''r1'' ?wn) = \<lparr>delete_error = None\<rparr>"
    unfolding deleteResume_withRetry_def withRetry_def retry
    by (simp add: run_defs wr_run_defs)
  have r2: "sleeps (snd (deleteResume_withRetry ascii_toLowerCase ''r1'' ?wn)) = [1000]"
    unfolding deleteResume_withRetry_def withRetry_def retry
    by (simp add: run_defs wr_run_defs)
  have r3: "fst (deleteResume_withRetry ascii_toLowerCase ''r1'' ?wp)
      = \<lparr>delete_error = Some ?p\<rparr>"
    using run by (auto simp add: deleteResume_withRetry_def)
  have opp: "deleteResume_operation ''r1'' (fst (getSupabaseClient ?wp)) (snd (getSupabaseClient ?wp))
      = (Inl ?p, snd (deleteResume_operation ''r1'' (fst (getSupabaseClient ?wp))
                        (snd (getSupabaseClient ?wp))))"
    by (simp add: run_defs deleteResume_operation_def delete_resume_def)
  have pooled: "executeWithPermanentConnection_loop (deleteResume_operation ''r1'') ''deleteResume''
        5 0 unknown_error ?wp
      = executeWithPermanentConnection_loop (deleteResume_operation ''r1'') ''deleteResume'' 5 1 ?p
          (sleep 100 (console_log (Attempt ''deleteResume'' 1 ?p)
             (snd (deleteResume_operation ''r1'' (fst (getSupabaseClient ?wp))
                        (snd (getSupabaseClient ?wp))))))"
    using retry_classification[where attempt = 0 and maxRetries = 5 and w = ?wp
        and c = "fst (getSupabaseClient ?wp)" and wc = "snd (getSupabaseClient ?wp)"
        and pooled = "deleteResume_operation ''r1''" and e = ?p
        and wd = "snd (deleteResume_operation ''r1'' (fst (getSupabaseClient ?wp))
                        (snd (getSupabaseClient ?wp)))"
        and name = "''deleteResume''" and pooledError = unknown_error, THEN conjunct2, THEN conjunct2, THEN conjunct2, THEN conjunct2, THEN conjunct1]
      opp
    by simp
  have r4: "fst (deleteResume ''r1'' ?wp) = \<lparr>delete_error = None\<rparr>"
    unfolding deleteResume_def executeWithPermanentConnection_def default_maxRetries_def pooled
    by (simp add: run_defs deleteResume_operation_def delete_resume_def)
  show ?thesis
    using connection_refused_retryable bad_gateway_retryable permission_denied_not_retryable
      o run r1 r2 r3 r4
    by simp
qed


text \<open>
  Against C6 as stated: when every request throws, \<open>deleteResume\<close> waits 100, 200, 300
  and 400 milliseconds after the attempts 0 to 3, where
  \<open>min (baseDelay * 2 ^ k) maxDelay\<close> is 1000, 2000, 4000 and 5000.
\<close>

theorem pooled_executor_delays_are_linear:
  "sleeps (snd (deleteResume ''r1'' unreachable_world)) = [100, 200, 300, 400]
   \<and> fst (deleteResume ''r1'' unreachable_world) = \<lparr>delete_error = Some fetch_failed\<rparr>
   \<and> [calculateDelay 0, calculateDelay 1, calculateDelay 2, calculateDelay 3]
      = [1000, 2000, 4000, 5000]"
  by (simp add: unreachable_world_def run_defs deleteResume_def deleteResume_operation_def
      delete_resume_def calculateDelay_eq)

theorem backoff_delays_witness:
  "calculateDelay 1 = 2000 \<and> calculateDelay 1 \<le> calculateDelay 2
   \<and> isRetryable ascii_toLowerCase (Error ''Network timeout'')
   \<and> (\<exists>w'. withRetry ascii_toLowerCase (withRetry_deleteResume_operation ''r1'') ''deleteResume''
              (example_world [Throws (Error ''Network timeout''), Throws (Error ''Network timeout''),
                              Throws (Error ''Network timeout''), Throws (Error ''Network timeout''),
                              NoFault])
            = (Inl (Error ''Network timeout''), w')
          \<and> faults w' = [NoFault]
          \<and> sleeps w' = [1000, 2000, 4000])
   \<and> (\<exists>w'. executeWithPermanentConnection (deleteResume_operation ''r1'') ''deleteResume'' 5
              unreachable_world = (Inl fetch_failed, w')
          \<and> faults w' = []
          \<and> sleeps w' = [100, 200, 300, 400])
   \<and> sleeps (snd (deleteResume_withRetry ascii_toLowerCase ''r1''
        (example_world [Throws (Error ''Network timeout''), NoFault]))) = [1000]"
proof -
  let ?n = "Error ''Network timeout''"
  let ?op = "withRetry_deleteResume_operation ''r1''"
  let ?fs = "[Throws ?n, Throws ?n, Throws ?n, Throws ?n]"
  let ?w = "example_world (?fs @ [NoFault])"
  let ?wn = "example_world [Throws ?n, NoFault]"
  let ?ff = "[Throws fetch_failed, Throws fetch_failed, Throws fetch_failed,
              Throws fetch_failed, Throws fetch_failed]"
  have u: "[0 ..< 3] = [0, 1, 2::nat]" "[0 ..< 4] = [0, 1, 2, 3::nat]"
    by (simp_all add: upt_rec)
  have ab1: "aborts_on_fault (\<lambda>c. ?op)" by (rule withRetry_deleteResume_operation_aborts)
  have ab2: "aborts_on_fault (deleteResume_operation ''r1'')"
    by (rule deleteResume_operation_aborts)
  have a: "calculateDelay 1 = 2000 \<and> calculateDelay 1 \<le> calculateDelay 2"
    using backoff_delays[where k = 1 and k' = 2, THEN conjunct1]
      backoff_delays[where k = 1 and k' = 2, THEN conjunct2, THEN conjunct2, THEN conjunct2, THEN conjunct1]
    by (simp add: RETRY_CONFIG_baseDelay_def RETRY_CONFIG_maxDelay_def)
  have r1: "\<exists>w'. withRetry ascii_toLowerCase ?op ''deleteResume'' ?w = (Inl ?n, w')
          \<and> faults w' = [NoFault] \<and> sleeps w' = [1000, 2000, 4000]"
    using backoff_delays[where toLowerCase = ascii_toLowerCase and operation = ?op and w = ?w
        and fs = ?fs and rest = "[NoFault]" and es = "[?n, ?n, ?n, ?n]"
        and name = "''deleteResume''", THEN conjunct2, THEN conjunct2, THEN conjunct2, THEN conjunct2, THEN conjunct2, THEN conjunct2, THEN conjunct1]
      ab1 network_timeout_retryable example_world_pool[of "?fs @ [NoFault]"]
    by (simp add: fault_error_def RETRY_CONFIG_maxRetries_def u calculateDelay_eq)
  have r2: "\<exists>w'. executeWithPermanentConnection (deleteResume_operation ''r1'') ''deleteResume'' 5
              unreachable_world = (Inl fetch_failed, w')
          \<and> faults w' = [] \<and> sleeps w' = [100, 200, 300, 400]"
    using backoff_delays[where pooled = "deleteResume_operation ''r1''"
        and w = unreachable_world and fs = ?ff and rest = "[]"
        and es = "[fetch_failed, fetch_failed, fetch_failed, fetch_failed, fetch_failed]"
        and maxRetries = 5 and name = "''deleteResume''", THEN conjunct2, THEN conjunct2, THEN conjunct2, THEN conjunct2, THEN conjunct2, THEN conjunct2, THEN conjunct2]
      ab2 example_world_pool[of ?ff]
    by (simp add: fault_error_def unreachable_world_def u)
  have opn: "?op ?wn = (Inl ?n, snd (?op ?wn))"
    by (simp add: run_defs wr_run_defs)
  have step: "withRetry_loop ascii_toLowerCase ?op ''deleteResume'' 0 None ?wn
      = withRetry_loop ascii_toLowerCase ?op ''deleteResume'' 1 (Some ?n)
          (sleep 1000 (console_log (Retrying ''deleteResume'' 1000)
             (console_log (AttemptFailed ''deleteResume'' 1 ?n) (snd (?op ?wn)))))"
    using backoff_delays[where toLowerCase = ascii_toLowerCase and operation = ?op
        and attempt = 0 and w = ?wn and e = ?n and ?w1.0 = "snd (?op ?wn)"
        and name = "''deleteResume''" and lastError = None, THEN conjunct2, THEN conjunct2, THEN conjunct2, THEN conjunct2, THEN conjunct1]
      opn network_timeout_retryable
    by (simp add: RETRY_CONFIG_maxRetries_def calculateDelay_eq)
  have r3: "sleeps (snd (deleteResume_withRetry ascii_toLowerCase ''r1'' ?wn)) = [1000]"
    unfolding deleteResume_withRetry_def withRetry_def step
    by (simp add: run_defs wr_run_defs)
  show ?thesis using a r1 r2 r3 network_timeout_retryable by simp
qed

section \<open>A run of \<open>getAllResumes\<close>\<close>

text \<open>
  On the store with shuffled rows \<open>getAllResumes\<close> returns the one resume with its
  entries by order key; an error object answered to a child query is ignored and the
  collection is empty.
\<close>

lemma getAllResumes_shuffled_world:
  "getAll_error (fst (getAllResumes shuffled_world)) = None"
  "map r_id (getAll_resumes (fst (getAllResumes shuffled_world))) = [''r1'']"
  "map r_experience (getAll_resumes (fst (getAllResumes shuffled_world))) = [[job_a, job_b]]"
  "map r_certifications (getAll_resumes (fst (getAllResumes shuffled_world))) = [[cert_a, cert_b]]"
  "faults (snd (getAllResumes (shuffled_world\<lparr>faults :=
      [NoFault, NoFault, ReturnsError fetch_failed]\<rparr>))) = []"
  "map r_education (getAll_resumes (fst (getAllResumes (shuffled_world\<lparr>faults :=
      [NoFault, NoFault, ReturnsError fetch_failed]\<rparr>)))) = [[]]"
  by (simp_all add: shuffled_world_def shuffled_database_def run_defs getAllResumes_def
      getAllResumes_operation_def select_all_resumes_def fetch_all_related_def
      first_rejection_def fulfilled_def or_empty_def select_experiences_def
      select_education_def select_certifications_def Resume_of_rows_def
      experience_row_def education_row_def certification_row_def uuidv4_def
      Experience_of_row_def Education_of_row_def Certification_of_row_def
      resumeData_of_def example_resume_def job_a_def job_b_def school_a_def cert_a_def cert_b_def)

end
